theory Spec2Isabelle
  imports Main "HOL-Library.AList"
begin

section \<open>Python values and exceptions\<close>

text \<open>
  The two modules (\<^verbatim>\<open>dbcenter.py\<close>, \<^verbatim>\<open>app.py\<close>) are modelled as functions on an explicit
  \<open>world\<close>: every function takes the world and returns its result together with the
  world it leaves behind. A raised exception is the left injection of the result.
  The exception's text is what Python's \<^verbatim>\<open>str(e)\<close> gives. The messages of the source are
  kept in ASCII (accents and inner double quotes dropped).
\<close>

datatype pyexn =
    RuntimeError string
  | AttributeError string
  | TypeError string
  | KeyError string
  | IndexError string
  | PoolError string
  | DatabaseError string
  | APIError string
  | ValidationError string

fun exn_str :: "pyexn \<Rightarrow> string" where
  "exn_str (RuntimeError m) = m"
| "exn_str (AttributeError m) = m"
| "exn_str (TypeError m) = m"
| "exn_str (KeyError m) = m"
| "exn_str (IndexError m) = m"
| "exn_str (PoolError m) = m"
| "exn_str (DatabaseError m) = m"
| "exn_str (APIError m) = m"
| "exn_str (ValidationError m) = m"

text \<open>
  The values that travel between the backends and the handlers. \<open>PTime t\<close> is a
  timestamp as the backend hands it over (a \<^verbatim>\<open>datetime\<close> from the driver, an ISO text
  from the table service); \<open>t\<close> is only used to compare timestamps.
\<close>

datatype pyval =
    PNone
  | PInt int
  | PStr string
  | PTime nat
  | PList "pyval list"
  | PDict "(string \<times> pyval) list"

type_synonym pydict = "(string \<times> pyval) list"

text \<open>Truth value of a Python object, as \<^verbatim>\<open>if x\<close>, \<^verbatim>\<open>not x\<close> and \<^verbatim>\<open>x or y\<close> test it.\<close>

fun truthy :: "pyval \<Rightarrow> bool" where
  "truthy PNone = False"
| "truthy (PInt i) = (i \<noteq> 0)"
| "truthy (PStr s) = (s \<noteq> [])"
| "truthy (PTime t) = True"
| "truthy (PList xs) = (xs \<noteq> [])"
| "truthy (PDict kv) = (kv \<noteq> [])"

fun is_none :: "pyval \<Rightarrow> bool" where
  "is_none PNone = True"
| "is_none _ = False"

text \<open>\<^verbatim>\<open>d.get(k)\<close> on a dict: the value, or \<^verbatim>\<open>None\<close> for a missing key.\<close>

definition dict_get :: "pydict \<Rightarrow> string \<Rightarrow> pyval" where
  "dict_get d k = (case map_of d k of None \<Rightarrow> PNone | Some v \<Rightarrow> v)"

text \<open>\<^verbatim>\<open>d[k]\<close> on a dict: a missing key raises.\<close>

definition dict_item :: "pydict \<Rightarrow> string \<Rightarrow> pyexn + pyval" where
  "dict_item d k = (case map_of d k of None \<Rightarrow> Inl (KeyError k) | Some v \<Rightarrow> Inr v)"

text \<open>\<^verbatim>\<open>{**d, **e}\<close>: the entries of \<open>e\<close> are written over those of \<open>d\<close>.\<close>

definition dict_merge :: "pydict \<Rightarrow> pydict \<Rightarrow> pydict" where
  "dict_merge d e = foldl (\<lambda>acc (k, v). AList.update k v acc) d e"

text \<open>\<^verbatim>\<open>r.get(k)\<close> on any value: only a dict has the method.\<close>

fun py_get :: "pyval \<Rightarrow> string \<Rightarrow> pyexn + pyval" where
  "py_get (PDict d) k = Inr (dict_get d k)"
| "py_get _ k = Inl (AttributeError ''object has no attribute get'')"

text \<open>\<^verbatim>\<open>data[0]\<close> on any value.\<close>

fun py_first :: "pyval \<Rightarrow> pyexn + pyval" where
  "py_first (PList []) = Inl (IndexError ''list index out of range'')"
| "py_first (PList (x # xs)) = Inr x"
| "py_first (PStr []) = Inl (IndexError ''string index out of range'')"
| "py_first (PStr (c # cs)) = Inr (PStr [c])"
| "py_first (PDict d) = Inl (KeyError ''0'')"
| "py_first _ = Inl (TypeError ''object is not subscriptable'')"

text \<open>\<^verbatim>\<open>for r in rows\<close>: the items the loop visits.\<close>

fun py_iter :: "pyval \<Rightarrow> pyexn + pyval list" where
  "py_iter (PList xs) = Inr xs"
| "py_iter (PStr s) = Inr (map (\<lambda>c. PStr [c]) s)"
| "py_iter (PDict d) = Inr (map (\<lambda>kv. PStr (fst kv)) d)"
| "py_iter _ = Inl (TypeError ''object is not iterable'')"

text \<open>
  \<^verbatim>\<open>str(x)\<close>: \<^verbatim>\<open>None\<close> prints as the four letters \<^verbatim>\<open>None\<close>, a string is itself. How
  every other value prints (a number, a \<^verbatim>\<open>datetime\<close>, a container) is the runtime's
  business and is the parameter \<open>other\<close>.
\<close>

fun py_str :: "(pyval \<Rightarrow> string) \<Rightarrow> pyval \<Rightarrow> string" where
  "py_str other PNone = ''None''"
| "py_str other (PStr s) = s"
| "py_str other v = other v"

definition opt_str :: "string option \<Rightarrow> pyval" where
  "opt_str v = (case v of None \<Rightarrow> PNone | Some s \<Rightarrow> PStr s)"

definition opt_time :: "nat option \<Rightarrow> pyval" where
  "opt_time v = (case v of None \<Rightarrow> PNone | Some t \<Rightarrow> PTime t)"

section \<open>The response of the table service\<close>

text \<open>
  \<^verbatim>\<open>dbcenter.py\<close> says of the service's answer: "res pode ser um objeto com .data ou um
  dict". \<open>Obj\<close> is an object with the listed attributes and no method \<^verbatim>\<open>get\<close> (the
  client library's response class); \<open>Dict\<close> is a plain dict.
\<close>

datatype response = Obj pydict | Dict pydict

text \<open>\<^verbatim>\<open>getattr(res, k, None)\<close>: a dict has no such attribute.\<close>

fun res_getattr :: "response \<Rightarrow> string \<Rightarrow> pyval" where
  "res_getattr (Obj attrs) k = dict_get attrs k"
| "res_getattr (Dict d) k = PNone"

text \<open>\<^verbatim>\<open>res.get(k)\<close>.\<close>

fun res_get :: "response \<Rightarrow> string \<Rightarrow> pyexn + pyval" where
  "res_get (Obj attrs) k = Inl (AttributeError ''object has no attribute get'')"
| "res_get (Dict d) k = Inr (dict_get d k)"

text \<open>
  \<^verbatim>\<open>getattr(res, k, None) or res.get(k)\<close>: the right operand is evaluated only when the
  left one is falsy, and then it may raise.
\<close>

definition attr_or_get :: "response \<Rightarrow> string \<Rightarrow> pyexn + pyval" where
  "attr_or_get res k =
     (let a = res_getattr res k in if truthy a then Inr a else res_get res k)"

section \<open>The clients table\<close>

text \<open>
  The table of \<^verbatim>\<open>create_clients_table\<close>:
  \<^verbatim>\<open>id SERIAL PRIMARY KEY, name TEXT NOT NULL, address TEXT, phone TEXT,
  created_at TIMESTAMPTZ DEFAULT now()\<close>. \<open>None\<close> in a column is SQL's NULL.
\<close>

record row =
  r_id :: int
  r_name :: string
  r_address :: "string option"
  r_phone :: "string option"
  r_created_at :: "nat option"

text \<open>
  A database: the table (\<open>None\<close> while it does not exist), the next value of the
  serial sequence, and the server's clock. The clock is moved by the environment, never
  by the program.
\<close>

record database =
  clients :: "row list option"
  clients_id_seq :: int
  now :: nat

text \<open>\<^verbatim>\<open>CREATE TABLE IF NOT EXISTS clients (...)\<close>.\<close>

definition sql_create_table :: "database \<Rightarrow> database" where
  "sql_create_table db =
     (case clients db of
        None \<Rightarrow> db\<lparr>clients := Some [], clients_id_seq := 1\<rparr>
      | Some rows \<Rightarrow> db)"

text \<open>
  \<^verbatim>\<open>INSERT INTO clients (name, address, phone) VALUES (%s, %s, %s) RETURNING id,
  created_at\<close>: the id is the sequence's next value (consumed even when the statement
  fails), \<open>created_at\<close> is the column default \<^verbatim>\<open>now()\<close>, and the primary key refuses an id
  that is already in the table.
\<close>

definition sql_insert ::
  "string \<Rightarrow> string option \<Rightarrow> string option \<Rightarrow> database \<Rightarrow> (pyexn + row) \<times> database" where
  "sql_insert name address phone db =
     (case clients db of
        None \<Rightarrow> (Inl (DatabaseError ''relation clients does not exist''), db)
      | Some rows \<Rightarrow>
          (let i = clients_id_seq db;
               db1 = db\<lparr>clients_id_seq := i + 1\<rparr>;
               r = \<lparr>r_id = i, r_name = name, r_address = address, r_phone = phone,
                    r_created_at = Some (now db)\<rparr>
           in if i \<in> set (map r_id rows)
              then (Inl (DatabaseError ''duplicate key value violates unique constraint''), db1)
              else (Inr r, db1\<lparr>clients := Some (rows @ [r])\<rparr>)))"

text \<open>
  \<^verbatim>\<open>ORDER BY created_at DESC\<close>: \<open>recent_first r s\<close> says that \<open>r\<close> may stand before \<open>s\<close>.
  In descending order the server puts NULLs first. The order among equal timestamps is
  the server's choice; here it is the one insertion sort gives.
\<close>

definition recent_first :: "row \<Rightarrow> row \<Rightarrow> bool" where
  "recent_first r s =
     (case r_created_at r of
        None \<Rightarrow> True
      | Some a \<Rightarrow> (case r_created_at s of None \<Rightarrow> False | Some b \<Rightarrow> b \<le> a))"

fun insert_desc :: "row \<Rightarrow> row list \<Rightarrow> row list" where
  "insert_desc r [] = [r]"
| "insert_desc r (s # ss) =
     (if recent_first r s then r # s # ss else s # insert_desc r ss)"

definition order_by_created_at_desc :: "row list \<Rightarrow> row list" where
  "order_by_created_at_desc rows = foldr insert_desc rows []"

text \<open>
  \<^verbatim>\<open>SELECT id, name, address, phone, created_at FROM clients ORDER BY created_at DESC
  LIMIT %s\<close>. The server refuses a negative limit.
\<close>

definition sql_select_recent :: "int \<Rightarrow> database \<Rightarrow> pyexn + row list" where
  "sql_select_recent limit db =
     (case clients db of
        None \<Rightarrow> Inl (DatabaseError ''relation clients does not exist'')
      | Some rows \<Rightarrow>
          if limit < 0 then Inl (DatabaseError ''LIMIT must not be negative'')
          else Inr (take (nat limit) (order_by_created_at_desc rows)))"

section \<open>The connection pool of the driver\<close>

text \<open>
  \<^verbatim>\<open>psycopg2.pool.SimpleConnectionPool\<close>, as far as the program uses it. Connections
  are numbered; \<open>idle\<close> are the open connections waiting in the pool, \<open>used\<close> the ones
  checked out. The constructor opens \<open>minconn\<close> connections at once; \<open>up\<close> says whether
  the server accepts connections.
\<close>

record pool =
  minconn :: nat
  maxconn :: nat
  idle :: "nat list"
  used :: "nat list"
  next_conn :: nat

definition SimpleConnectionPool :: "nat \<Rightarrow> nat \<Rightarrow> bool \<Rightarrow> pyexn + pool" where
  "SimpleConnectionPool mn mx up =
     (if 0 < mn \<and> \<not> up then Inl (DatabaseError ''could not connect to server'')
      else Inr \<lparr>minconn = mn, maxconn = mx, idle = [0..<mn], used = [], next_conn = mn\<rparr>)"

definition getconn :: "bool \<Rightarrow> pool \<Rightarrow> pyexn + (nat \<times> pool)" where
  "getconn up p =
     (if idle p \<noteq> [] then
        Inr (last (idle p), p\<lparr>idle := butlast (idle p), used := used p @ [last (idle p)]\<rparr>)
      else if length (used p) = maxconn p then Inl (PoolError ''connection pool exhausted'')
      else if \<not> up then Inl (DatabaseError ''could not connect to server'')
      else Inr (next_conn p,
                p\<lparr>used := used p @ [next_conn p], next_conn := Suc (next_conn p)\<rparr>))"

definition putconn :: "nat \<Rightarrow> pool \<Rightarrow> pyexn + pool" where
  "putconn c p =
     (if c \<in> set (used p) then
        Inr (p\<lparr>used := remove1 c (used p),
               idle := (if length (idle p) < minconn p then idle p @ [c] else idle p)\<rparr>)
      else Inl (PoolError ''trying to put unkeyed connection''))"

section \<open>The world of the two modules\<close>

text \<open>The three query chains \<^verbatim>\<open>dbcenter.py\<close> sends to the table service.\<close>

datatype sb_request =
    SelectIdLimit1
  | InsertClient string "string option" "string option"
  | SelectAllByCreatedDesc int

text \<open>
  Everything outside the two source files is a field of the world: the configuration
  read from the environment, which packages can be imported, the runtime's whitespace
  class and \<^verbatim>\<open>str\<close>, the database server behind the driver, and the table service with the
  table behind it. The last two fields are the module globals \<^verbatim>\<open>_supabase\<close> and \<^verbatim>\<open>_pool\<close>.
\<close>

record world =
  SUPABASE_URL :: "string option"
  SUPABASE_KEY :: "string option"
  has_supabase :: bool
  has_psycopg2 :: bool
  isspace :: "char \<Rightarrow> bool"
  str_other :: "pyval \<Rightarrow> string"
  pg_up :: bool
  pg :: database
  service :: "sb_request \<Rightarrow> database \<Rightarrow> (pyexn + response) \<times> database"
  remote :: database
  g_supabase :: bool
  g_pool :: "pool option"

text \<open>
  The table service as its documentation describes it, for a table like the one above:
  it runs the request against the table and wraps the rows as \<^verbatim>\<open>data\<close>, in an object or
  in a dict. A world whose \<open>service\<close> is \<open>postgrest sh\<close> has a well-behaved service; the
  functions below work with any \<open>service\<close>.
\<close>

datatype shape = AsObject | AsDict

definition wrap :: "shape \<Rightarrow> pyval \<Rightarrow> response" where
  "wrap sh d =
     (case sh of
        AsObject \<Rightarrow> Obj [(''data'', d), (''count'', PNone)]
      | AsDict \<Rightarrow> Dict [(''data'', d)])"

definition row_dict :: "row \<Rightarrow> pyval" where
  "row_dict r =
     PDict [(''id'', PInt (r_id r)), (''name'', PStr (r_name r)),
            (''address'', opt_str (r_address r)), (''phone'', opt_str (r_phone r)),
            (''created_at'', opt_time (r_created_at r))]"

fun postgrest :: "shape \<Rightarrow> sb_request \<Rightarrow> database \<Rightarrow> (pyexn + response) \<times> database" where
  "postgrest sh SelectIdLimit1 db =
     (case clients db of
        None \<Rightarrow> (Inl (APIError ''relation clients does not exist''), db)
      | Some rows \<Rightarrow>
          (Inr (wrap sh (PList (map (\<lambda>r. PDict [(''id'', PInt (r_id r))]) (take 1 rows)))), db))"
| "postgrest sh (InsertClient name address phone) db =
     (case sql_insert name address phone db of
        (Inl e, db1) \<Rightarrow> (Inl (APIError (exn_str e)), db1)
      | (Inr r, db1) \<Rightarrow> (Inr (wrap sh (PList [row_dict r])), db1))"
| "postgrest sh (SelectAllByCreatedDesc limit) db =
     (case sql_select_recent limit db of
        Inl e \<Rightarrow> (Inl (APIError (exn_str e)), db)
      | Inr rows \<Rightarrow> (Inr (wrap sh (PList (map row_dict rows))), db))"

section \<open>dbcenter.py\<close>

text \<open>\<^verbatim>\<open>if SUPABASE_URL and SUPABASE_KEY\<close>: both are set and not empty.\<close>

definition env_truthy :: "string option \<Rightarrow> bool" where
  "env_truthy v = (case v of None \<Rightarrow> False | Some s \<Rightarrow> s \<noteq> [])"

definition hosted :: "world \<Rightarrow> bool" where
  "hosted w = (env_truthy (SUPABASE_URL w) \<and> env_truthy (SUPABASE_KEY w))"

text \<open>\<^verbatim>\<open>try: body finally: fin\<close>: \<open>fin\<close> always runs; an exception of \<open>fin\<close> wins.\<close>

definition try_finally ::
  "('s \<Rightarrow> (pyexn + 'a) \<times> 's) \<Rightarrow> ('s \<Rightarrow> (pyexn + unit) \<times> 's) \<Rightarrow> 's \<Rightarrow> (pyexn + 'a) \<times> 's" where
  "try_finally body fin s =
     (case body s of
        (r, s1) \<Rightarrow>
          (case fin s1 of
             (Inl e, s2) \<Rightarrow> (Inl e, s2)
           | (Inr u, s2) \<Rightarrow> (r, s2)))"

definition init_supabase :: "world \<Rightarrow> (pyexn + unit) \<times> world" where
  "init_supabase w =
     (if \<not> g_supabase w then
        (if \<not> has_supabase w then
           (Inl (RuntimeError ''Pacote supabase nao esta instalado. Execute: pip install supabase''), w)
         else if \<not> env_truthy (SUPABASE_URL w) \<or> \<not> env_truthy (SUPABASE_KEY w) then
           (Inl (RuntimeError ''SUPABASE_URL e SUPABASE_KEY devem estar configurados no .env''), w)
         else (Inr (), w\<lparr>g_supabase := True\<rparr>))
      else (Inr (), w))"

text \<open>\<^verbatim>\<open>init_pool(minconn=1, maxconn=5)\<close>; every caller in the source uses the defaults.\<close>

definition init_pool :: "nat \<Rightarrow> nat \<Rightarrow> world \<Rightarrow> (pyexn + unit) \<times> world" where
  "init_pool mn mx w =
     (case g_pool w of
        None \<Rightarrow>
          (if \<not> has_psycopg2 w then
             (Inl (RuntimeError
                ''Pacote psycopg2-binary nao esta instalado. Execute: pip install psycopg2-binary''), w)
           else
             (case SimpleConnectionPool mn mx (pg_up w) of
                Inl e \<Rightarrow> (Inl e, w)
              | Inr p \<Rightarrow> (Inr (), w\<lparr>g_pool := Some p\<rparr>)))
      | Some p \<Rightarrow> (Inr (), w))"

definition get_conn :: "world \<Rightarrow> (pyexn + nat) \<times> world" where
  "get_conn w =
     (case (if g_pool w = None then init_pool 1 5 w else (Inr (), w)) of
        (Inl e, w1) \<Rightarrow> (Inl e, w1)
      | (Inr u, w1) \<Rightarrow>
          (case g_pool w1 of
             None \<Rightarrow> (Inl (AttributeError ''NoneType object has no attribute getconn''), w1)
           | Some p \<Rightarrow>
               (case getconn (pg_up w1) p of
                  Inl e \<Rightarrow> (Inl e, w1)
                | Inr (c, p1) \<Rightarrow> (Inr c, w1\<lparr>g_pool := Some p1\<rparr>))))"

definition put_conn :: "nat \<Rightarrow> world \<Rightarrow> (pyexn + unit) \<times> world" where
  "put_conn conn w =
     (case g_pool w of
        None \<Rightarrow> (Inr (), w)
      | Some p \<Rightarrow>
          (case putconn conn p of
             Inl e \<Rightarrow> (Inl e, w)
           | Inr p1 \<Rightarrow> (Inr (), w\<lparr>g_pool := Some p1\<rparr>)))"

definition close_pool :: "world \<Rightarrow> world" where
  "close_pool w = (case g_pool w of None \<Rightarrow> w | Some p \<Rightarrow> w\<lparr>g_pool := None\<rparr>)"

text \<open>
  A statement sent through a pooled connection reaches the server only while it is up.
\<close>

definition cur_execute ::
  "(database \<Rightarrow> (pyexn + 'a) \<times> database) \<Rightarrow> world \<Rightarrow> (pyexn + 'a) \<times> world" where
  "cur_execute stmt w =
     (if \<not> pg_up w then (Inl (DatabaseError ''server closed the connection unexpectedly''), w)
      else (case stmt (pg w) of (r, db) \<Rightarrow> (r, w\<lparr>pg := db\<rparr>)))"

definition create_clients_table :: "world \<Rightarrow> (pyexn + bool) \<times> world" where
  "create_clients_table w =
     (if hosted w then
        (case init_supabase w of
           (Inl e, w1) \<Rightarrow> (Inl e, w1)
         | (Inr sb, w1) \<Rightarrow>
             (case service w1 SelectIdLimit1 (remote w1) of
                (Inl e, db) \<Rightarrow> (Inr False, w1\<lparr>remote := db\<rparr>)
              | (Inr res, db) \<Rightarrow> (Inr True, w1\<lparr>remote := db\<rparr>)))
      else
        (case get_conn w of
           (Inl e, w1) \<Rightarrow> (Inl e, w1)
         | (Inr conn, w1) \<Rightarrow>
             try_finally
               (\<lambda>w2. case cur_execute (\<lambda>db. (Inr (), sql_create_table db)) w2 of
                        (Inl e, w3) \<Rightarrow> (Inl e, w3)
                      | (Inr u, w3) \<Rightarrow> (Inr True, w3))
               (put_conn conn) w1))"

text \<open>
  The hosted branch of \<^verbatim>\<open>insert_client\<close> after \<^verbatim>\<open>execute()\<close> has returned \<open>res\<close>: the
  \<^verbatim>\<open>try\<close> around the first lookup turns an exception into \<^verbatim>\<open>data = None\<close>; the second
  lookup stands outside any \<^verbatim>\<open>try\<close>.
\<close>

definition insert_client_hosted :: "(pyval \<Rightarrow> string) \<Rightarrow> response \<Rightarrow> pyexn + pydict" where
  "insert_client_hosted so res =
     (let data = (case attr_or_get res ''data'' of Inl e \<Rightarrow> PNone | Inr v \<Rightarrow> v) in
      if \<not> truthy data then
        (case attr_or_get res ''error'' of
           Inl e \<Rightarrow> Inl e
         | Inr err \<Rightarrow> Inl (RuntimeError (''Falha ao inserir no Supabase: '' @ py_str so err)))
      else
        (case py_first data of
           Inl e \<Rightarrow> Inl e
         | Inr row \<Rightarrow>
             (case py_get row ''id'' of
                Inl e \<Rightarrow> Inl e
              | Inr i \<Rightarrow>
                  (case py_get row ''created_at'' of
                     Inl e \<Rightarrow> Inl e
                   | Inr c \<Rightarrow> Inr [(''id'', i), (''created_at'', c)]))))"

definition insert_client ::
  "string \<Rightarrow> string option \<Rightarrow> string option \<Rightarrow> world \<Rightarrow> (pyexn + pydict) \<times> world" where
  "insert_client name address phone w =
     (if hosted w then
        (case init_supabase w of
           (Inl e, w1) \<Rightarrow> (Inl e, w1)
         | (Inr sb, w1) \<Rightarrow>
             (case service w1 (InsertClient name address phone) (remote w1) of
                (Inl e, db) \<Rightarrow> (Inl e, w1\<lparr>remote := db\<rparr>)
              | (Inr res, db) \<Rightarrow> (insert_client_hosted (str_other w1) res, w1\<lparr>remote := db\<rparr>)))
      else
        (case get_conn w of
           (Inl e, w1) \<Rightarrow> (Inl e, w1)
         | (Inr conn, w1) \<Rightarrow>
             try_finally
               (\<lambda>w2. case cur_execute (sql_insert name address phone) w2 of
                        (Inl e, w3) \<Rightarrow> (Inl e, w3)
                      | (Inr r, w3) \<Rightarrow>
                          (Inr [(''id'', PInt (r_id r)), (''created_at'', opt_time (r_created_at r))],
                           w3))
               (put_conn conn) w1))"

text \<open>The hosted branch of \<^verbatim>\<open>get_clients\<close> after \<^verbatim>\<open>execute()\<close> has returned \<open>res\<close>.\<close>

definition get_clients_hosted :: "(pyval \<Rightarrow> string) \<Rightarrow> response \<Rightarrow> pyexn + pyval" where
  "get_clients_hosted so res =
     (let data = (case attr_or_get res ''data'' of Inl e \<Rightarrow> PNone | Inr v \<Rightarrow> v) in
      if is_none data then
        (case attr_or_get res ''error'' of
           Inl e \<Rightarrow> Inl e
         | Inr err \<Rightarrow>
             Inl (RuntimeError (''Falha ao listar clientes no Supabase: '' @ py_str so err)))
      else Inr data)"

text \<open>
  \<^verbatim>\<open>get_clients(limit=100)\<close>: the argument is \<open>None\<close> when the caller leaves it out. The
  direct branch builds one dict per fetched row, in the order fetched.
\<close>

definition get_clients :: "int option \<Rightarrow> world \<Rightarrow> (pyexn + pyval) \<times> world" where
  "get_clients limit_arg w =
     (let limit = (case limit_arg of None \<Rightarrow> 100 | Some l \<Rightarrow> l) in
      if hosted w then
        (case init_supabase w of
           (Inl e, w1) \<Rightarrow> (Inl e, w1)
         | (Inr sb, w1) \<Rightarrow>
             (case service w1 (SelectAllByCreatedDesc limit) (remote w1) of
                (Inl e, db) \<Rightarrow> (Inl e, w1\<lparr>remote := db\<rparr>)
              | (Inr res, db) \<Rightarrow> (get_clients_hosted (str_other w1) res, w1\<lparr>remote := db\<rparr>)))
      else
        (case get_conn w of
           (Inl e, w1) \<Rightarrow> (Inl e, w1)
         | (Inr conn, w1) \<Rightarrow>
             try_finally
               (\<lambda>w2. case cur_execute (\<lambda>db. (sql_select_recent limit db, db)) w2 of
                        (Inl e, w3) \<Rightarrow> (Inl e, w3)
                      | (Inr rows, w3) \<Rightarrow> (Inr (PList (map row_dict rows)), w3))
               (put_conn conn) w1))"

section \<open>app.py\<close>

text \<open>
  \<^verbatim>\<open>constr(strip_whitespace=True, min_length=1)\<close>: the validation library strips the
  surrounding whitespace first and checks the length of what is left. \<open>ws\<close> is the
  runtime's whitespace class.
\<close>

definition strip :: "(char \<Rightarrow> bool) \<Rightarrow> string \<Rightarrow> string" where
  "strip ws s = rev (dropWhile ws (rev (dropWhile ws s)))"

definition constr :: "(char \<Rightarrow> bool) \<Rightarrow> bool \<Rightarrow> nat \<Rightarrow> string \<Rightarrow> pyexn + string" where
  "constr ws strip_whitespace min_length v =
     (let s = (if strip_whitespace then strip ws v else v) in
      if length s < min_length
      then Inl (ValidationError ''ensure this value has at least min_length characters'')
      else Inr s)"

text \<open>
  The JSON body of a create request, as far as the model \<^verbatim>\<open>ClientIn\<close> reads it: each
  field is a string, or \<open>None\<close> when it is missing or null.
\<close>

record client_json =
  j_name :: "string option"
  j_address :: "string option"
  j_phone :: "string option"

record ClientIn =
  in_name :: string
  in_address :: "string option"
  in_phone :: "string option"

record ClientOut = ClientIn +
  out_id :: int
  out_created_at :: string

text \<open>\<^verbatim>\<open>Optional[constr(strip_whitespace=True)] = None\<close>.\<close>

definition optional_constr :: "(char \<Rightarrow> bool) \<Rightarrow> string option \<Rightarrow> pyexn + string option" where
  "optional_constr ws v =
     (case v of
        None \<Rightarrow> Inr None
      | Some s \<Rightarrow> (case constr ws True 0 s of Inl e \<Rightarrow> Inl e | Inr t \<Rightarrow> Inr (Some t)))"

definition ClientIn_validate :: "(char \<Rightarrow> bool) \<Rightarrow> client_json \<Rightarrow> pyexn + ClientIn" where
  "ClientIn_validate ws body =
     (case j_name body of
        None \<Rightarrow> Inl (ValidationError ''name: field required'')
      | Some v \<Rightarrow>
          (case constr ws True 1 v of
             Inl e \<Rightarrow> Inl e
           | Inr n \<Rightarrow>
               (case optional_constr ws (j_address body) of
                  Inl e \<Rightarrow> Inl e
                | Inr a \<Rightarrow>
                    (case optional_constr ws (j_phone body) of
                       Inl e \<Rightarrow> Inl e
                     | Inr p \<Rightarrow> Inr \<lparr>in_name = n, in_address = a, in_phone = p\<rparr>))))"

text \<open>\<^verbatim>\<open>payload.dict()\<close>.\<close>

definition ClientIn_dict :: "ClientIn \<Rightarrow> pydict" where
  "ClientIn_dict payload =
     [(''name'', PStr (in_name payload)), (''address'', opt_str (in_address payload)),
      (''phone'', opt_str (in_phone payload))]"

text \<open>
  The response model: what a handler returns is validated against \<^verbatim>\<open>ClientOut\<close> before it
  is sent. \<^verbatim>\<open>id: int\<close> and \<^verbatim>\<open>created_at: str\<close> are required and not optional, so
  \<^verbatim>\<open>None\<close> is refused for both; the three inherited fields are validated as in
  \<^verbatim>\<open>ClientIn\<close>. Only values of the declared type are accepted here.
\<close>

definition out_str_field :: "pydict \<Rightarrow> string \<Rightarrow> pyexn + string option" where
  "out_str_field d k =
     (case map_of d k of
        None \<Rightarrow> Inr None
      | Some PNone \<Rightarrow> Inr None
      | Some (PStr s) \<Rightarrow> Inr (Some s)
      | Some v \<Rightarrow> Inl (ValidationError (k @ '': str type expected'')))"

definition ClientOut_validate :: "(char \<Rightarrow> bool) \<Rightarrow> pydict \<Rightarrow> pyexn + ClientOut" where
  "ClientOut_validate ws d =
     (case out_str_field d ''name'' of
        Inl e \<Rightarrow> Inl e
      | Inr n \<Rightarrow>
     (case out_str_field d ''address'' of
        Inl e \<Rightarrow> Inl e
      | Inr a \<Rightarrow>
     (case out_str_field d ''phone'' of
        Inl e \<Rightarrow> Inl e
      | Inr p \<Rightarrow>
     (case ClientIn_validate ws \<lparr>j_name = n, j_address = a, j_phone = p\<rparr> of
        Inl e \<Rightarrow> Inl e
      | Inr base \<Rightarrow>
     (case map_of d ''id'' of
        Some (PInt i) \<Rightarrow>
          (case map_of d ''created_at'' of
             Some (PStr c) \<Rightarrow>
               Inr \<lparr>in_name = in_name base, in_address = in_address base,
                    in_phone = in_phone base, out_id = i, out_created_at = c\<rparr>
           | Some PNone \<Rightarrow> Inl (ValidationError ''created_at: none is not an allowed value'')
           | None \<Rightarrow> Inl (ValidationError ''created_at: field required'')
           | Some v \<Rightarrow> Inl (ValidationError ''created_at: str type expected''))
      | Some PNone \<Rightarrow> Inl (ValidationError ''id: none is not an allowed value'')
      | None \<Rightarrow> Inl (ValidationError ''id: field required'')
      | Some v \<Rightarrow> Inl (ValidationError ''id: value is not a valid integer''))))))"

text \<open>\<^verbatim>\<open>response_model=List[ClientOut]\<close>: every item is validated, the first failure wins.\<close>

fun ClientOut_validate_list :: "(char \<Rightarrow> bool) \<Rightarrow> pydict list \<Rightarrow> pyexn + ClientOut list" where
  "ClientOut_validate_list ws [] = Inr []"
| "ClientOut_validate_list ws (d # ds) =
     (case ClientOut_validate ws d of
        Inl e \<Rightarrow> Inl e
      | Inr out \<Rightarrow>
          (case ClientOut_validate_list ws ds of
             Inl e \<Rightarrow> Inl e
           | Inr outs \<Rightarrow> Inr (out # outs)))"

text \<open>An error response: the status code and the detail text.\<close>

datatype http_error = HTTPException nat string

definition startup_event :: "world \<Rightarrow> (pyexn + unit) \<times> world" where
  "startup_event w =
     (case init_pool 1 5 w of
        (Inl e, w1) \<Rightarrow> (Inl e, w1)
      | (Inr u, w1) \<Rightarrow>
          (case create_clients_table w1 of
             (Inl e, w2) \<Rightarrow> (Inl e, w2)
           | (Inr b, w2) \<Rightarrow> (Inr (), w2)))"

definition shutdown_event :: "world \<Rightarrow> world" where
  "shutdown_event w = close_pool w"

text \<open>
  The handler of \<^verbatim>\<open>POST /api/clients\<close>: the whole body stands in
  \<^verbatim>\<open>try: ... except Exception as e: raise HTTPException(status_code=500, detail=str(e))\<close>.
\<close>

definition create_client :: "ClientIn \<Rightarrow> world \<Rightarrow> (http_error + pydict) \<times> world" where
  "create_client payload w =
     (case insert_client (in_name payload) (in_address payload) (in_phone payload) w of
        (Inl e, w1) \<Rightarrow> (Inl (HTTPException 500 (exn_str e)), w1)
      | (Inr inserted, w1) \<Rightarrow>
          (case dict_item inserted ''id'' of
             Inl e \<Rightarrow> (Inl (HTTPException 500 (exn_str e)), w1)
           | Inr i \<Rightarrow>
               (case dict_item inserted ''created_at'' of
                  Inl e \<Rightarrow> (Inl (HTTPException 500 (exn_str e)), w1)
                | Inr c \<Rightarrow>
                    (Inr (dict_merge
                            [(''id'', i), (''created_at'', PStr (py_str (str_other w1) c))]
                            (ClientIn_dict payload)),
                     w1))))"

text \<open>One turn of the loop of \<^verbatim>\<open>list_clients\<close>: the dict appended for the row \<open>r\<close>.\<close>

definition list_clients_item :: "(pyval \<Rightarrow> string) \<Rightarrow> pyval \<Rightarrow> pyexn + pydict" where
  "list_clients_item so r =
     (case py_get r ''id'' of Inl e \<Rightarrow> Inl e | Inr i \<Rightarrow>
     (case py_get r ''name'' of Inl e \<Rightarrow> Inl e | Inr n \<Rightarrow>
     (case py_get r ''address'' of Inl e \<Rightarrow> Inl e | Inr a \<Rightarrow>
     (case py_get r ''phone'' of Inl e \<Rightarrow> Inl e | Inr p \<Rightarrow>
     (case py_get r ''created_at'' of Inl e \<Rightarrow> Inl e | Inr c \<Rightarrow>
        Inr [(''id'', i), (''name'', n), (''address'', a), (''phone'', p),
             (''created_at'', if \<not> is_none c then PStr (py_str so c) else PNone)])))))"

fun list_clients_loop ::
  "(pyval \<Rightarrow> string) \<Rightarrow> pyval list \<Rightarrow> pydict list \<Rightarrow> pyexn + pydict list" where
  "list_clients_loop so [] result = Inr result"
| "list_clients_loop so (r # rs) result =
     (case list_clients_item so r of
        Inl e \<Rightarrow> Inl e
      | Inr d \<Rightarrow> list_clients_loop so rs (result @ [d]))"

text \<open>
  The handler of \<^verbatim>\<open>GET /api/clients\<close>, \<^verbatim>\<open>list_clients(limit: int = 100)\<close>: the query
  parameter is \<open>None\<close> when the request has none.
\<close>

definition list_clients :: "int option \<Rightarrow> world \<Rightarrow> (http_error + pydict list) \<times> world" where
  "list_clients limit_param w =
     (let limit = (case limit_param of None \<Rightarrow> 100 | Some l \<Rightarrow> l) in
      case get_clients (Some limit) w of
        (Inl e, w1) \<Rightarrow> (Inl (HTTPException 500 (exn_str e)), w1)
      | (Inr rows, w1) \<Rightarrow>
          (case py_iter rows of
             Inl e \<Rightarrow> (Inl (HTTPException 500 (exn_str e)), w1)
           | Inr rs \<Rightarrow>
               (case list_clients_loop (str_other w1) rs [] of
                  Inl e \<Rightarrow> (Inl (HTTPException 500 (exn_str e)), w1)
                | Inr result \<Rightarrow> (Inr result, w1))))"

text \<open>
  A route of the web framework: the request body is validated first and a refused body is
  answered with status 422 without calling the handler; what the handler returns is
  validated against the response model, and a refused value is answered with status 500.
\<close>

definition route ::
  "('b \<Rightarrow> pyexn + 'p) \<Rightarrow> ('p \<Rightarrow> world \<Rightarrow> (http_error + 'r) \<times> world) \<Rightarrow> ('r \<Rightarrow> pyexn + 'o) \<Rightarrow>
   'b \<Rightarrow> world \<Rightarrow> (http_error + 'o) \<times> world" where
  "route validate_in handler validate_out body w =
     (case validate_in body of
        Inl e \<Rightarrow> (Inl (HTTPException 422 (exn_str e)), w)
      | Inr payload \<Rightarrow>
          (case handler payload w of
             (Inl e, w1) \<Rightarrow> (Inl e, w1)
           | (Inr r, w1) \<Rightarrow>
               (case validate_out r of
                  Inl e \<Rightarrow> (Inl (HTTPException 500 ''Internal Server Error''), w1)
                | Inr out \<Rightarrow> (Inr out, w1))))"

text \<open>\<^verbatim>\<open>@app.post("/api/clients", response_model=ClientOut)\<close>.\<close>

definition post_api_clients :: "client_json \<Rightarrow> world \<Rightarrow> (http_error + ClientOut) \<times> world" where
  "post_api_clients body w =
     route (ClientIn_validate (isspace w)) create_client (ClientOut_validate (isspace w)) body w"

text \<open>\<^verbatim>\<open>@app.get("/api/clients", response_model=List[ClientOut])\<close>.\<close>

definition get_api_clients :: "int option \<Rightarrow> world \<Rightarrow> (http_error + ClientOut list) \<times> world" where
  "get_api_clients limit_param w =
     route Inr list_clients (ClientOut_validate_list (isspace w)) limit_param w"

section \<open>Observations and example worlds\<close>

text \<open>The number of connections checked out of the pool and not yet returned.\<close>

definition outstanding :: "world \<Rightarrow> nat" where
  "outstanding w = (case g_pool w of None \<Rightarrow> 0 | Some p \<Rightarrow> length (used p))"

text \<open>The database behind the backend the configuration selects.\<close>

definition backend :: "world \<Rightarrow> database" where
  "backend w = (if hosted w then remote w else pg w)"

text \<open>A string that starts or ends with whitespace.\<close>

definition surrounded :: "(char \<Rightarrow> bool) \<Rightarrow> string \<Rightarrow> bool" where
  "surrounded ws s = (s \<noteq> [] \<and> (ws (hd s) \<or> ws (last s)))"

text \<open>\<open>contains sub s\<close>: the text \<open>sub\<close> occurs in \<open>s\<close>.\<close>

fun starts_with :: "string \<Rightarrow> string \<Rightarrow> bool" where
  "starts_with [] s = True"
| "starts_with (c # cs) [] = False"
| "starts_with (c # cs) (d # ds) = (c = d \<and> starts_with cs ds)"

fun contains :: "string \<Rightarrow> string \<Rightarrow> bool" where
  "contains sub [] = (sub = [])"
| "contains sub (c # cs) = (starts_with sub (c # cs) \<or> contains sub cs)"

text \<open>The whitespace of ASCII: space, tab, line feed, vertical tab, form feed, return.\<close>

definition ascii_space :: "char \<Rightarrow> bool" where
  "ascii_space c = (c \<in> set [CHR '' '', CHR 0x09, CHR 0x0A, CHR 0x0B, CHR 0x0C, CHR 0x0D])"

text \<open>A database whose clients table exists and is empty, and one without the table.\<close>

definition db_empty :: database where
  "db_empty = \<lparr>clients = Some [], clients_id_seq = 1, now = 1000\<rparr>"

definition db_no_table :: database where
  "db_no_table = \<lparr>clients = None, clients_id_seq = 1, now = 1000\<rparr>"

text \<open>
  A fresh process in direct-pool mode: no service configured, the driver installed, the
  server up with an empty clients table, no pool yet.
\<close>

definition direct_world :: world where
  "direct_world =
     \<lparr>SUPABASE_URL = None, SUPABASE_KEY = None, has_supabase = False, has_psycopg2 = True,
      isspace = ascii_space, str_other = (\<lambda>v. ''?''), pg_up = True, pg = db_empty,
      service = postgrest AsObject, remote = db_no_table, g_supabase = False, g_pool = None\<rparr>"

text \<open>
  A fresh process in hosted-table mode: URL and key configured, the client library
  installed, the remote clients table empty; the driver is not installed and no database
  server runs beside the process. \<open>sh\<close> is the shape of the service's answers.
\<close>

definition hosted_world :: "shape \<Rightarrow> world" where
  "hosted_world sh =
     \<lparr>SUPABASE_URL = Some ''https://example.supabase.co'', SUPABASE_KEY = Some ''key'',
      has_supabase = True, has_psycopg2 = False,
      isspace = ascii_space, str_other = (\<lambda>v. ''?''), pg_up = False, pg = db_no_table,
      service = postgrest sh, remote = db_empty, g_supabase = False, g_pool = None\<rparr>"

text \<open>The same hosted deployment on a machine that also has the driver and a server.\<close>

definition hosted_world_with_driver :: world where
  "hosted_world_with_driver = (hosted_world AsObject)\<lparr>has_psycopg2 := True, pg_up := True\<rparr>"

text \<open>A direct-mode table holding one client whose \<open>created_at\<close> is NULL.\<close>

definition null_created_world :: world where
  "null_created_world =
     direct_world\<lparr>pg := db_empty\<lparr>clients :=
        Some [\<lparr>r_id = 1, r_name = ''Ana'', r_address = None, r_phone = None,
               r_created_at = None\<rparr>], clients_id_seq := 2\<rparr>\<rparr>"

text \<open>A direct-mode process whose server has no clients table, with one connection checked out.\<close>

definition busy_world :: world where
  "busy_world =
     direct_world\<lparr>pg := db_no_table,
       g_pool := Some \<lparr>minconn = 1, maxconn = 5, idle = [0], used = [1], next_conn = 2\<rparr>\<rparr>"

text \<open>The direct-mode process after \<open>init_pool\<close> has run.\<close>

definition opened_world :: world where
  "opened_world = snd (init_pool 1 5 direct_world)"

text \<open>A table service that answers every request with an empty dict.\<close>

definition silent_service :: "sb_request \<Rightarrow> database \<Rightarrow> (pyexn + response) \<times> database" where
  "silent_service req db = (Inr (Dict []), db)"

definition silent_world :: world where
  "silent_world = (hosted_world AsDict)\<lparr>service := silent_service\<rparr>"

text \<open>Request bodies: a name of blanks and a tab, and a name with blanks around it.\<close>

definition blank_body :: client_json where
  "blank_body =
     \<lparr>j_name = Some [CHR '' '', CHR 0x09, CHR '' ''], j_address = Some ''Rua A'',
      j_phone = None\<rparr>"

definition ana_body :: client_json where
  "ana_body =
     \<lparr>j_name = Some ''  Ana Lima '', j_address = Some '' Rua A, 10  '', j_phone = None\<rparr>"

definition ana_payload :: ClientIn where
  "ana_payload = \<lparr>in_name = ''Ana Lima'', in_address = Some ''Rua A, 10'', in_phone = None\<rparr>"

definition ana_out :: ClientOut where
  "ana_out =
     \<lparr>in_name = ''Ana Lima'', in_address = Some ''Rua A, 10'', in_phone = None, out_id = 1,
      out_created_at = ''?''\<rparr>"

text \<open>Three clients created at the times 10, 20 and 30, stored in that order.\<close>

definition three_clients :: "row list" where
  "three_clients =
     [\<lparr>r_id = 1, r_name = ''Ana'', r_address = None, r_phone = None, r_created_at = Some 10\<rparr>,
      \<lparr>r_id = 2, r_name = ''Bia'', r_address = Some ''Rua B'', r_phone = None,
       r_created_at = Some 20\<rparr>,
      \<lparr>r_id = 3, r_name = ''Caio'', r_address = None, r_phone = Some ''555'',
       r_created_at = Some 30\<rparr>]"

definition three_world :: world where
  "three_world =
     direct_world\<lparr>pg := \<lparr>clients = Some three_clients, clients_id_seq = 4, now = 40\<rparr>\<rparr>"

text \<open>The same three clients behind the table service.\<close>

definition three_hosted_world :: world where
  "three_hosted_world =
     (hosted_world AsObject)\<lparr>remote := \<lparr>clients = Some three_clients, clients_id_seq = 4, now = 40\<rparr>\<rparr>"

text \<open>A table service that answers every request with an error object.\<close>

definition refusing_service :: "sb_request \<Rightarrow> database \<Rightarrow> (pyexn + response) \<times> database" where
  "refusing_service req db =
     (Inr (Obj [(''data'', PNone), (''error'', PStr ''permission denied for table clients'')]), db)"

definition refusing_world :: world where
  "refusing_world = (hosted_world AsObject)\<lparr>service := refusing_service\<rparr>"

section \<open>Listing an empty table\<close>

lemma get_clients_hosted_dict_empty:
  "dict_get d ''data'' = PList [] \<Longrightarrow> get_clients_hosted so (Dict d) = Inr (PList [])"
  by (simp add: get_clients_hosted_def attr_or_get_def)

lemma get_clients_hosted_object_empty:
  "dict_get attrs ''data'' = PList [] \<Longrightarrow> \<not> truthy (dict_get attrs ''error'') \<Longrightarrow>
   get_clients_hosted so (Obj attrs) = Inl (AttributeError ''object has no attribute get'')"
  by (simp add: get_clients_hosted_def attr_or_get_def)

text \<open>
  C1. With no client records, \<open>get_clients\<close> returns the empty list in direct-pool mode
  and in hosted mode when the service answers with a dict. When the service answers with
  its response object, the empty \<^verbatim>\<open>data\<close> list is falsy, so
  \<^verbatim>\<open>getattr(res, 'data', None) or res.get('data')\<close> goes on to \<^verbatim>\<open>res.get\<close>, which the
  object does not have: the \<^verbatim>\<open>try\<close> turns that into \<^verbatim>\<open>data = None\<close>, and the second
  \<^verbatim>\<open>res.get('error')\<close>, outside the \<^verbatim>\<open>try\<close>, raises \<^verbatim>\<open>AttributeError\<close>.
\<close>

theorem get_clients_empty_table_by_mode:
  "clients (remote (hosted_world AsObject)) = Some []
   \<and> fst (get_clients None (hosted_world AsObject))
       = Inl (AttributeError ''object has no attribute get'')
   \<and> fst (get_clients None (hosted_world AsDict)) = Inr (PList [])
   \<and> fst (get_clients None direct_world) = Inr (PList [])"
  by code_simp

section \<open>Startup\<close>

text \<open>
  C2. \<open>startup_event\<close> calls \<open>init_pool\<close> whatever the mode, and \<open>init_pool\<close> does not look
  at the configuration. In hosted mode without the driver the startup stops with
  \<open>init_pool\<close>'s error before the table is looked at (the service client is never
  created); with the driver and a server at hand a pool is opened although the mode is
  hosted.
\<close>

theorem startup_event_hosted_initializes_pool:
  "hosted (hosted_world AsObject)
   \<and> fst (startup_event (hosted_world AsObject))
       = Inl (RuntimeError
           ''Pacote psycopg2-binary nao esta instalado. Execute: pip install psycopg2-binary'')
   \<and> g_supabase (snd (startup_event (hosted_world AsObject))) = False
   \<and> hosted hosted_world_with_driver
   \<and> g_pool hosted_world_with_driver = None
   \<and> fst (startup_event hosted_world_with_driver) = Inr ()
   \<and> g_pool (snd (startup_event hosted_world_with_driver))
       = Some \<lparr>minconn = 1, maxconn = 5, idle = [0], used = [], next_conn = 1\<rparr>"
  by code_simp

section \<open>Listing a record without a timestamp\<close>

text \<open>
  C7. The handler \<open>list_clients\<close> passes a missing \<open>created_at\<close> on as \<^verbatim>\<open>None\<close>, but the
  route's response model \<^verbatim>\<open>ClientOut\<close> declares \<^verbatim>\<open>created_at: str\<close>: the list the handler
  returns is refused and the request ends with status 500.
\<close>

theorem list_null_created_at_fails:
  "fst (list_clients None null_created_world)
     = Inr [[(''id'', PInt 1), (''name'', PStr ''Ana''), (''address'', PNone),
             (''phone'', PNone), (''created_at'', PNone)]]
   \<and> fst (get_api_clients None null_created_world)
     = Inl (HTTPException 500 ''Internal Server Error'')"
  by code_simp

section \<open>Validation of the request body\<close>

lemma strip_prefix: "dropWhile ws s = strip ws s @ rev (takeWhile ws (rev (dropWhile ws s)))"
proof -
  have "rev (strip ws s @ rev (takeWhile ws (rev (dropWhile ws s)))) = rev (dropWhile ws s)"
    by (simp add: strip_def)
  then show ?thesis
    by (metis rev_is_rev_conv)
qed

lemma strip_hd: "strip ws s \<noteq> [] \<Longrightarrow> \<not> ws (hd (strip ws s))"
proof -
  assume ne: "strip ws s \<noteq> []"
  have "hd (dropWhile ws s) = hd (strip ws s)"
    using ne strip_prefix [of ws s] by (metis hd_append2)
  moreover have "dropWhile ws s \<noteq> []"
    using ne strip_prefix [of ws s] by (metis append_is_Nil_conv)
  ultimately show ?thesis
    using hd_dropWhile [of ws s] by simp
qed

lemma strip_last: "strip ws s \<noteq> [] \<Longrightarrow> \<not> ws (last (strip ws s))"
proof -
  assume ne: "strip ws s \<noteq> []"
  then have d: "dropWhile ws (rev (dropWhile ws s)) \<noteq> []"
    by (simp add: strip_def)
  have "last (strip ws s) = hd (dropWhile ws (rev (dropWhile ws s)))"
    using d by (simp add: strip_def last_rev)
  then show ?thesis
    using hd_dropWhile [OF d] by simp
qed

lemma strip_not_surrounded: "\<not> surrounded ws (strip ws s)"
  using strip_hd [of ws s] strip_last [of ws s] by (auto simp: surrounded_def)

lemma strip_fixed: "\<not> surrounded ws s \<Longrightarrow> strip ws s = s"
proof (cases s)
  case Nil
  then show ?thesis by (simp add: strip_def)
next
  case (Cons c cs)
  assume "\<not> surrounded ws s"
  then have h: "\<not> ws (hd s)" and l: "\<not> ws (last s)"
    using Cons by (auto simp: surrounded_def)
  have a: "dropWhile ws s = s"
    using h Cons by simp
  have "rev s \<noteq> []" using Cons by simp
  moreover have "hd (rev s) = last s"
    using Cons by (simp add: hd_rev)
  ultimately have b: "dropWhile ws (rev s) = rev s"
    using l by (metis dropWhile_eq_self_iff)
  show ?thesis
    by (simp add: strip_def a b)
qed

lemma strip_idem: "strip ws (strip ws s) = strip ws s"
  by (rule strip_fixed) (rule strip_not_surrounded)

lemma constr_strip_Inr:
  "constr ws True m v = Inr s \<longleftrightarrow> s = strip ws v \<and> m \<le> length s"
  by (auto simp: constr_def Let_def)

lemma optional_constr_eq: "optional_constr ws v = Inr (map_option (strip ws) v)"
  by (cases v) (simp_all add: optional_constr_def constr_def)

lemma ClientIn_validate_Inr:
  "ClientIn_validate ws body = Inr p \<longleftrightarrow>
     (\<exists>v. j_name body = Some v \<and> strip ws v \<noteq> [] \<and>
          p = \<lparr>in_name = strip ws v, in_address = map_option (strip ws) (j_address body),
               in_phone = map_option (strip ws) (j_phone body)\<rparr>)"
  by (cases "j_name body")
     (auto simp: ClientIn_validate_def optional_constr_eq constr_def Let_def)

lemma ClientIn_validate_blank:
  "j_name body = Some v \<Longrightarrow> strip ws v = [] \<Longrightarrow>
   ClientIn_validate ws body
     = Inl (ValidationError ''ensure this value has at least min_length characters'')"
  by (simp add: ClientIn_validate_def constr_def)

lemma ClientIn_validate_again:
  assumes "ClientIn_validate ws body = Inr p"
  shows "ClientIn_validate ws
           \<lparr>j_name = Some (in_name p), j_address = in_address p, j_phone = in_phone p\<rparr> = Inr p"
proof -
  obtain v where v: "j_name body = Some v" "strip ws v \<noteq> []"
    and p: "p = \<lparr>in_name = strip ws v, in_address = map_option (strip ws) (j_address body),
                 in_phone = map_option (strip ws) (j_phone body)\<rparr>"
    using assms by (auto simp: ClientIn_validate_Inr)
  show ?thesis
    unfolding ClientIn_validate_Inr using v
    by (simp add: p strip_idem option.map_comp comp_def)
qed

text \<open>
  C3. A create request whose name is empty after trimming is answered with status 422
  and the world is left as it was, whatever the handler behind the route is: the handler,
  and with it \<open>insert_client\<close>, is not called. A request that validation accepts reaches
  the handler \<open>create_client\<close> with name, address and phone stripped of surrounding
  whitespace.
\<close>

theorem blank_name_rejected_accepted_trimmed:
  "(j_name body = Some v \<and> strip (isspace w) v = [] \<longrightarrow>
      route (ClientIn_validate (isspace w)) handler validate_out body w
        = (Inl (HTTPException 422 ''ensure this value has at least min_length characters''), w)
      \<and> post_api_clients body w
        = (Inl (HTTPException 422 ''ensure this value has at least min_length characters''), w))
   \<and> (ClientIn_validate (isspace w) body = Inr p \<longrightarrow>
        j_name body = Some v \<longrightarrow>
          in_name p = strip (isspace w) v
        \<and> in_address p = map_option (strip (isspace w)) (j_address body)
        \<and> in_phone p = map_option (strip (isspace w)) (j_phone body)
        \<and> in_name p \<noteq> [] \<and> \<not> surrounded (isspace w) (in_name p)
        \<and> (\<forall>a. in_address p = Some a \<longrightarrow> \<not> surrounded (isspace w) a)
        \<and> (\<forall>a. in_phone p = Some a \<longrightarrow> \<not> surrounded (isspace w) a)
        \<and> post_api_clients body w
            = route Inr create_client (ClientOut_validate (isspace w)) p w)"
proof (intro conjI impI)
  assume "j_name body = Some v \<and> strip (isspace w) v = []"
  then have r: "ClientIn_validate (isspace w) body
     = Inl (ValidationError ''ensure this value has at least min_length characters'')"
    by (simp add: ClientIn_validate_blank)
  show "route (ClientIn_validate (isspace w)) handler validate_out body w
        = (Inl (HTTPException 422 ''ensure this value has at least min_length characters''), w)"
    by (simp add: route_def r)
  show "post_api_clients body w
        = (Inl (HTTPException 422 ''ensure this value has at least min_length characters''), w)"
    by (simp add: post_api_clients_def route_def r)
next
  assume a: "ClientIn_validate (isspace w) body = Inr p" and n: "j_name body = Some v"
  from a n have p: "p = \<lparr>in_name = strip (isspace w) v,
      in_address = map_option (strip (isspace w)) (j_address body),
      in_phone = map_option (strip (isspace w)) (j_phone body)\<rparr>"
    and ne: "strip (isspace w) v \<noteq> []"
    by (auto simp: ClientIn_validate_Inr)
  show "in_name p = strip (isspace w) v" by (simp add: p)
  show "in_address p = map_option (strip (isspace w)) (j_address body)" by (simp add: p)
  show "in_phone p = map_option (strip (isspace w)) (j_phone body)" by (simp add: p)
  show "in_name p \<noteq> []" using ne by (simp add: p)
  show "\<not> surrounded (isspace w) (in_name p)" by (simp add: p strip_not_surrounded)
  show "\<forall>a. in_address p = Some a \<longrightarrow> \<not> surrounded (isspace w) a"
    by (auto simp: p strip_not_surrounded)
  show "\<forall>a. in_phone p = Some a \<longrightarrow> \<not> surrounded (isspace w) a"
    by (auto simp: p strip_not_surrounded)
  show "post_api_clients body w = route Inr create_client (ClientOut_validate (isspace w)) p w"
    by (simp add: post_api_clients_def route_def a)
qed

theorem blank_name_rejected_accepted_trimmed_witness:
  "post_api_clients blank_body direct_world
     = (Inl (HTTPException 422 ''ensure this value has at least min_length characters''),
        direct_world)
   \<and> ClientIn_validate (isspace direct_world) ana_body = Inr ana_payload
   \<and> \<not> surrounded (isspace direct_world) (in_name ana_payload)"
proof -
  have b: "j_name blank_body = Some [CHR '' '', CHR 0x09, CHR '' '']
           \<and> strip (isspace direct_world) [CHR '' '', CHR 0x09, CHR '' ''] = []"
    by (simp add: blank_body_def direct_world_def strip_def ascii_space_def)
  have a: "ClientIn_validate (isspace direct_world) ana_body = Inr ana_payload"
    by (simp add: ana_body_def ana_payload_def direct_world_def ClientIn_validate_def
          optional_constr_def constr_def strip_def ascii_space_def)
  have n: "j_name ana_body = Some ''  Ana Lima ''"
    by (simp add: ana_body_def)
  from blank_name_rejected_accepted_trimmed
         [of blank_body "[CHR '' '', CHR 0x09, CHR '' '']" direct_world]
       blank_name_rejected_accepted_trimmed
         [of ana_body "''  Ana Lima ''" direct_world _ _ ana_payload]
       a b n
  show ?thesis by blast
qed

section \<open>The response of a create request\<close>

lemma created_dict:
  "dict_merge [(''id'', i), (''created_at'', c)] (ClientIn_dict p)
     = [(''id'', i), (''created_at'', c), (''name'', PStr (in_name p)),
        (''address'', opt_str (in_address p)), (''phone'', opt_str (in_phone p))]"
  by (simp add: dict_merge_def ClientIn_dict_def)

lemma out_str_field_opt_str:
  "map_of d k = Some (opt_str v) \<Longrightarrow> out_str_field d k = Inr v"
  by (cases v) (simp_all add: out_str_field_def opt_str_def)

lemma ClientOut_validate_created:
  assumes "ClientIn_validate ws body = Inr p"
    and "ClientOut_validate ws
           [(''id'', i), (''created_at'', PStr c), (''name'', PStr (in_name p)),
            (''address'', opt_str (in_address p)), (''phone'', opt_str (in_phone p))] = Inr out"
  shows "i = PInt (out_id out) \<and> out_created_at out = c \<and> in_name out = in_name p
         \<and> in_address out = in_address p \<and> in_phone out = in_phone p"
proof -
  let ?d = "[(''id'', i), (''created_at'', PStr c), (''name'', PStr (in_name p)),
            (''address'', opt_str (in_address p)), (''phone'', opt_str (in_phone p))]"
  have n: "out_str_field ?d ''name'' = Inr (Some (in_name p))"
    by (simp add: out_str_field_def)
  have a: "out_str_field ?d ''address'' = Inr (in_address p)"
    by (rule out_str_field_opt_str) simp
  have ph: "out_str_field ?d ''phone'' = Inr (in_phone p)"
    by (rule out_str_field_opt_str) simp
  have id: "map_of ?d ''id'' = Some i" by simp
  have ca: "map_of ?d ''created_at'' = Some (PStr c)" by simp
  from assms(2) show ?thesis
    unfolding ClientOut_validate_def n a ph id ca
    by (cases i) (auto simp: ClientIn_validate_again [OF assms(1)])
qed

text \<open>
  C10. In the response of a successful create request the name, address and phone are the
  stripped values of the request body, whatever the backend stored or returned; the id
  and \<open>created_at\<close> are the ones \<open>insert_client\<close> returned, \<open>created_at\<close> passed through
  \<^verbatim>\<open>str\<close>.
\<close>

theorem create_response_echoes_payload:
  assumes "post_api_clients body w = (Inr out, w')"
  shows "\<exists>v p inserted.
           j_name body = Some v
         \<and> in_name out = strip (isspace w) v
         \<and> in_address out = map_option (strip (isspace w)) (j_address body)
         \<and> in_phone out = map_option (strip (isspace w)) (j_phone body)
         \<and> ClientIn_validate (isspace w) body = Inr p
         \<and> insert_client (in_name p) (in_address p) (in_phone p) w = (Inr inserted, w')
         \<and> dict_item inserted ''id'' = Inr (PInt (out_id out))
         \<and> (\<exists>c. dict_item inserted ''created_at'' = Inr c
                \<and> out_created_at out = py_str (str_other w') c)"
proof -
  from assms obtain p where p: "ClientIn_validate (isspace w) body = Inr p"
    by (auto simp: post_api_clients_def route_def split: sum.splits)
  from assms p obtain d where
    h: "create_client p w = (Inr d, w')" and v: "ClientOut_validate (isspace w) d = Inr out"
    by (auto simp: post_api_clients_def route_def split: sum.splits prod.splits)
  from h obtain inserted i c where
    ins: "insert_client (in_name p) (in_address p) (in_phone p) w = (Inr inserted, w')"
    and i: "dict_item inserted ''id'' = Inr i"
    and c: "dict_item inserted ''created_at'' = Inr c"
    and d: "d = dict_merge [(''id'', i), (''created_at'', PStr (py_str (str_other w') c))]
               (ClientIn_dict p)"
    by (auto simp: create_client_def split: sum.splits prod.splits)
  from v have "ClientOut_validate (isspace w)
           [(''id'', i), (''created_at'', PStr (py_str (str_other w') c)),
            (''name'', PStr (in_name p)),
            (''address'', opt_str (in_address p)), (''phone'', opt_str (in_phone p))] = Inr out"
    by (simp add: d created_dict)
  from ClientOut_validate_created [OF p this]
  have o: "i = PInt (out_id out)" "out_created_at out = py_str (str_other w') c"
    "in_name out = in_name p" "in_address out = in_address p" "in_phone out = in_phone p"
    by simp_all
  from p obtain v where v: "j_name body = Some v"
    and pv: "p = \<lparr>in_name = strip (isspace w) v,
      in_address = map_option (strip (isspace w)) (j_address body),
      in_phone = map_option (strip (isspace w)) (j_phone body)\<rparr>"
    by (auto simp: ClientIn_validate_Inr)
  show ?thesis
    using v p ins i c o by (intro exI [of _ v] exI [of _ p] exI [of _ inserted]) (simp add: pv)
qed

theorem create_response_echoes_payload_witness:
  "fst (post_api_clients ana_body direct_world) = Inr ana_out
   \<and> (\<exists>v p inserted.
           j_name ana_body = Some v
         \<and> in_name ana_out = strip (isspace direct_world) v
         \<and> in_address ana_out = map_option (strip (isspace direct_world)) (j_address ana_body)
         \<and> in_phone ana_out = map_option (strip (isspace direct_world)) (j_phone ana_body)
         \<and> ClientIn_validate (isspace direct_world) ana_body = Inr p
         \<and> insert_client (in_name p) (in_address p) (in_phone p) direct_world
             = (Inr inserted, snd (post_api_clients ana_body direct_world))
         \<and> dict_item inserted ''id'' = Inr (PInt (out_id ana_out))
         \<and> (\<exists>c. dict_item inserted ''created_at'' = Inr c
                \<and> out_created_at ana_out
                    = py_str (str_other (snd (post_api_clients ana_body direct_world))) c))"
proof -
  have a: "fst (post_api_clients ana_body direct_world) = Inr ana_out"
    by code_simp
  then have "post_api_clients ana_body direct_world
               = (Inr ana_out, snd (post_api_clients ana_body direct_world))"
    by (cases "post_api_clients ana_body direct_world") simp
  from create_response_echoes_payload [OF this] a show ?thesis
    by blast
qed

section \<open>Connections are returned to the pool\<close>

lemma init_pool_outstanding: "outstanding (snd (init_pool mn mx w)) = outstanding w"
  by (auto simp: init_pool_def outstanding_def SimpleConnectionPool_def
           split: option.splits sum.splits)

lemma getconn_used:
  "getconn up p = Inr (c, p1) \<Longrightarrow> used p1 = used p @ [c]"
  by (auto simp: getconn_def split: if_splits)

lemma get_conn_Inl: "get_conn w = (Inl e, w1) \<Longrightarrow> outstanding w1 = outstanding w"
  using init_pool_outstanding [of 1 5 w]
  by (auto simp: get_conn_def split: if_splits prod.splits sum.splits option.splits)

lemma get_conn_Inr:
  assumes "get_conn w = (Inr c, w1)"
  shows "\<exists>p. g_pool w1 = Some p \<and> c \<in> set (used p) \<and> length (used p) = Suc (outstanding w)"
proof (cases "g_pool w")
  case None
  with assms obtain w0 p p1 where i: "init_pool 1 5 w = (Inr (), w0)"
    and p: "g_pool w0 = Some p" and g: "getconn (pg_up w0) p = Inr (c, p1)"
    and w1: "w1 = w0\<lparr>g_pool := Some p1\<rparr>"
    by (auto simp: get_conn_def split: prod.splits sum.splits option.splits)
  from init_pool_outstanding [of 1 5 w] i p have "length (used p) = outstanding w"
    by (simp add: outstanding_def)
  with getconn_used [OF g] w1 show ?thesis by simp
next
  case (Some p)
  with assms obtain p1 where g: "getconn (pg_up w) p = Inr (c, p1)"
    and w1: "w1 = w\<lparr>g_pool := Some p1\<rparr>"
    by (auto simp: get_conn_def split: prod.splits sum.splits option.splits)
  with getconn_used [OF g] Some show ?thesis by (simp add: outstanding_def)
qed

lemma put_conn_used:
  assumes "g_pool w = Some p" and "c \<in> set (used p)"
  shows "\<exists>w'. put_conn c w = (Inr (), w') \<and> Suc (outstanding w') = length (used p)"
proof -
  from assms(2) have "Suc (length (remove1 c (used p))) = length (used p)"
    using length_pos_if_in_set [of c "used p"] by (simp add: length_remove1)
  with assms show ?thesis
    by (simp add: put_conn_def putconn_def outstanding_def)
qed

lemma with_conn_outstanding:
  assumes body: "\<And>w2. g_pool (snd (body w2)) = g_pool w2"
  shows "outstanding
           (snd (case get_conn w of
                   (Inl e, w1) \<Rightarrow> (Inl e, w1)
                 | (Inr conn, w1) \<Rightarrow> try_finally body (put_conn conn) w1))
         = outstanding w"
proof (cases "get_conn w")
  case (Pair r w1)
  show ?thesis
  proof (cases r)
    case (Inl e)
    with Pair get_conn_Inl [of w e w1] show ?thesis by simp
  next
    case (Inr c)
    with Pair get_conn_Inr [of w c w1] obtain p where
      p: "g_pool w1 = Some p" "c \<in> set (used p)" "length (used p) = Suc (outstanding w)"
      by auto
    obtain r2 w2 where b: "body w1 = (r2, w2)" by (cases "body w1")
    with body [of w1] p have "g_pool w2 = Some p" by simp
    from put_conn_used [OF this p(2)] obtain w3 where
      "put_conn c w2 = (Inr (), w3)" "Suc (outstanding w3) = length (used p)"
      by auto
    with Pair Inr b p(3) show ?thesis
      by (simp add: try_finally_def)
  qed
qed

lemma cur_execute_pool: "g_pool (snd (cur_execute stmt w)) = g_pool w"
  by (simp add: cur_execute_def split: prod.splits)

lemma insert_body_pool:
  "g_pool (snd (case cur_execute stmt w2 of
                  (Inl e, w3) \<Rightarrow> (Inl e, w3)
                | (Inr r, w3) \<Rightarrow> (Inr (f r), w3))) = g_pool w2"
  using cur_execute_pool [of stmt w2]
  by (cases "cur_execute stmt w2") (auto split: sum.splits)

text \<open>
  C6. In direct-pool mode \<open>insert_client\<close> and \<open>get_clients\<close> leave the number of
  checked-out connections as they found it, whether they return or raise: when
  \<open>get_conn\<close> fails nothing was checked out, and otherwise the \<^verbatim>\<open>finally\<close> clause returns
  the one connection that was.
\<close>

theorem direct_operations_release_connection:
  assumes "\<not> hosted w"
  shows "outstanding (snd (insert_client name address phone w)) = outstanding w
       \<and> outstanding (snd (get_clients limit_arg w)) = outstanding w"
proof
  from with_conn_outstanding [of _ w, OF insert_body_pool] assms
  show "outstanding (snd (insert_client name address phone w)) = outstanding w"
    by (simp add: insert_client_def)
next
  from with_conn_outstanding [of _ w, OF insert_body_pool] assms
  show "outstanding (snd (get_clients limit_arg w)) = outstanding w"
    by (simp add: get_clients_def Let_def)
qed

theorem direct_operations_release_connection_witness:
  "fst (insert_client ''Ana'' None None busy_world)
     = Inl (DatabaseError ''relation clients does not exist'')
   \<and> outstanding busy_world = 1
   \<and> outstanding (snd (insert_client ''Ana'' None None busy_world)) = outstanding busy_world
   \<and> fst (get_clients None direct_world) = Inr (PList [])
   \<and> outstanding (snd (get_clients None direct_world)) = outstanding direct_world"
proof -
  have e: "fst (insert_client ''Ana'' None None busy_world)
             = Inl (DatabaseError ''relation clients does not exist'')
           \<and> outstanding busy_world = 1
           \<and> fst (get_clients None direct_world) = Inr (PList [])"
    by code_simp
  have b: "\<not> hosted busy_world" by code_simp
  have d: "\<not> hosted direct_world" by code_simp
  from direct_operations_release_connection [OF b, of "''Ana''" None None]
       direct_operations_release_connection [OF d, of _ _ _ None] e
  show ?thesis by blast
qed

section \<open>The life of the pool\<close>

text \<open>
  C8, as the code has it. While a pool exists \<open>init_pool\<close> changes nothing, whatever sizes
  it is called with. \<open>close_pool\<close> discards the pool. After that the guard
  \<^verbatim>\<open>if _pool is None\<close> holds again: the next \<open>init_pool\<close> opens a new pool, and so does the
  next \<open>get_conn\<close>, through which every direct-mode operation goes.
\<close>

theorem pool_kept_until_closed:
  "(g_pool w = Some p \<longrightarrow> init_pool mn mx w = (Inr (), w))
   \<and> g_pool (close_pool w) = None
   \<and> (has_psycopg2 w \<and> pg_up w \<longrightarrow>
        g_pool (snd (init_pool mn mx (close_pool w)))
          = Some \<lparr>minconn = mn, maxconn = mx, idle = [0..<mn], used = [], next_conn = mn\<rparr>
      \<and> fst (get_conn (close_pool w)) = Inr 0
      \<and> g_pool (snd (get_conn (close_pool w)))
          = Some \<lparr>minconn = 1, maxconn = 5, idle = [], used = [0], next_conn = 1\<rparr>)"
  by (auto simp: init_pool_def close_pool_def get_conn_def SimpleConnectionPool_def getconn_def
           split: option.splits)

text \<open>
  C8, as stated, fails: after \<open>close_pool\<close> a listing opens a new pool.
\<close>

theorem pool_recreated_after_close:
  "g_pool opened_world
     = Some \<lparr>minconn = 1, maxconn = 5, idle = [0], used = [], next_conn = 1\<rparr>
   \<and> g_pool (close_pool opened_world) = None
   \<and> fst (get_clients None (close_pool opened_world)) = Inr (PList [])
   \<and> g_pool (snd (get_clients None (close_pool opened_world)))
     = Some \<lparr>minconn = 1, maxconn = 5, idle = [0], used = [], next_conn = 1\<rparr>"
  by code_simp

theorem pool_kept_until_closed_witness:
  "init_pool 3 7 opened_world = (Inr (), opened_world)
   \<and> g_pool (snd (init_pool 3 7 (close_pool opened_world)))
       = Some \<lparr>minconn = 3, maxconn = 7, idle = [0..<3], used = [], next_conn = 3\<rparr>"
proof -
  have a: "g_pool opened_world
     = Some \<lparr>minconn = 1, maxconn = 5, idle = [0], used = [], next_conn = 1\<rparr>"
    by code_simp
  have b: "has_psycopg2 opened_world \<and> pg_up opened_world"
    by code_simp
  from pool_kept_until_closed [of opened_world _ 3 7] a b
  show ?thesis by blast
qed

section \<open>An insert the service answers without data\<close>

lemma insert_client_hosted_dict_no_data:
  "\<not> truthy (dict_get d ''data'') \<Longrightarrow>
   insert_client_hosted so (Dict d)
     = Inl (RuntimeError (''Falha ao inserir no Supabase: '' @ py_str so (dict_get d ''error'')))"
  by (simp add: insert_client_hosted_def attr_or_get_def)

lemma insert_client_hosted_obj_no_data:
  "\<not> truthy (dict_get attrs ''data'') \<Longrightarrow> truthy (dict_get attrs ''error'') \<Longrightarrow>
   insert_client_hosted so (Obj attrs)
     = Inl (RuntimeError (''Falha ao inserir no Supabase: '' @ py_str so (dict_get attrs ''error'')))"
  by (simp add: insert_client_hosted_def attr_or_get_def)

lemma insert_client_hosted_call:
  "hosted w \<Longrightarrow> init_supabase w = (Inr (), w1) \<Longrightarrow>
   service w1 (InsertClient name address phone) (remote w1) = (Inr res, db) \<Longrightarrow>
   insert_client name address phone w
     = (insert_client_hosted (str_other w1) res, w1\<lparr>remote := db\<rparr>)"
  by (simp add: insert_client_def)

lemma init_supabase_fields:
  "init_supabase w = (r, w1) \<Longrightarrow> str_other w1 = str_other w \<and> service w1 = service w \<and> remote w1 = remote w"
  by (auto simp: init_supabase_def split: if_splits)

text \<open>
  C5, as the code has it. In hosted mode, when the service's answer to the insert is a
  dict without data (missing, \<^verbatim>\<open>None\<close> or empty), \<open>insert_client\<close> raises \<^verbatim>\<open>RuntimeError\<close>
  with the text \<^verbatim>\<open>Falha ao inserir no Supabase: \<close> followed by \<^verbatim>\<open>str\<close> of the reported
  error, which is \<^verbatim>\<open>None\<close> when the dict reports none. The same holds for a response object
  without data whose \<^verbatim>\<open>error\<close> attribute is truthy.
\<close>

theorem insert_no_data_message:
  assumes "hosted w" and "init_supabase w = (Inr (), w1)"
    and "service w (InsertClient name address phone) (remote w) = (Inr res, db)"
  shows "(res = Dict d \<and> \<not> truthy (dict_get d ''data'') \<longrightarrow>
            fst (insert_client name address phone w)
              = Inl (RuntimeError (''Falha ao inserir no Supabase: ''
                                    @ py_str (str_other w) (dict_get d ''error'')))
          \<and> (map_of d ''error'' = None \<longrightarrow>
               fst (insert_client name address phone w)
                 = Inl (RuntimeError ''Falha ao inserir no Supabase: None'')))
       \<and> (res = Obj d \<and> \<not> truthy (dict_get d ''data'') \<and> truthy (dict_get d ''error'') \<longrightarrow>
            fst (insert_client name address phone w)
              = Inl (RuntimeError (''Falha ao inserir no Supabase: ''
                                    @ py_str (str_other w) (dict_get d ''error''))))"
proof -
  from init_supabase_fields [OF assms(2)]
  have f: "str_other w1 = str_other w" "service w1 = service w" "remote w1 = remote w"
    by simp_all
  from assms(3) f have "service w1 (InsertClient name address phone) (remote w1) = (Inr res, db)"
    by simp
  from insert_client_hosted_call [OF assms(1,2) this]
  have c: "fst (insert_client name address phone w) = insert_client_hosted (str_other w) res"
    by (simp add: f)
  show ?thesis
    by (auto simp: c insert_client_hosted_dict_no_data insert_client_hosted_obj_no_data dict_get_def)
qed

text \<open>
  C5, as stated, fails: a dict that reports neither data nor an error gives the text
  \<^verbatim>\<open>None\<close>, not \<^verbatim>\<open>unknown\<close>.
\<close>

theorem insert_no_data_says_None:
  "hosted silent_world
   \<and> service silent_world (InsertClient ''Ana'' None None) (remote silent_world)
       = (Inr (Dict []), remote silent_world)
   \<and> fst (insert_client ''Ana'' None None silent_world)
       = Inl (RuntimeError ''Falha ao inserir no Supabase: None'')
   \<and> \<not> contains ''unknown'' ''Falha ao inserir no Supabase: None''"
  by code_simp

theorem insert_no_data_message_witness:
  "fst (insert_client ''Ana'' None None silent_world)
       = Inl (RuntimeError (''Falha ao inserir no Supabase: '' @ py_str (str_other silent_world) PNone))
   \<and> fst (insert_client ''Ana'' None None silent_world)
       = Inl (RuntimeError ''Falha ao inserir no Supabase: None'')
   \<and> fst (insert_client ''Ana'' None None refusing_world)
       = Inl (RuntimeError
               (''Falha ao inserir no Supabase: ''
                @ py_str (str_other refusing_world) (PStr ''permission denied for table clients'')))"
proof -
  have h: "hosted silent_world" by code_simp
  have i: "init_supabase silent_world = (Inr (), silent_world\<lparr>g_supabase := True\<rparr>)"
    by (simp add: init_supabase_def silent_world_def hosted_world_def env_truthy_def)
  have s: "service silent_world (InsertClient ''Ana'' None None) (remote silent_world)
       = (Inr (Dict []), remote silent_world)"
    by (simp add: silent_world_def silent_service_def)
  have d: "Dict [] = Dict [] \<and> \<not> truthy (dict_get [] ''data'') \<and> map_of [] ''error'' = (None :: pyval option)"
    by (simp add: dict_get_def)
  have h': "hosted refusing_world" by code_simp
  have i': "init_supabase refusing_world = (Inr (), refusing_world\<lparr>g_supabase := True\<rparr>)"
    by (simp add: init_supabase_def refusing_world_def hosted_world_def env_truthy_def)
  let ?attrs = "[(''data'', PNone), (''error'', PStr ''permission denied for table clients'')]"
  have s': "service refusing_world (InsertClient ''Ana'' None None) (remote refusing_world)
       = (Inr (Obj ?attrs), remote refusing_world)"
    by (simp add: refusing_world_def refusing_service_def)
  have d': "\<not> truthy (dict_get ?attrs ''data'') \<and> truthy (dict_get ?attrs ''error'')
            \<and> dict_get ?attrs ''error'' = PStr ''permission denied for table clients''"
    by (simp add: dict_get_def)
  from insert_no_data_message [OF h i s, of "[]"] d
  have 1: "fst (insert_client ''Ana'' None None silent_world)
       = Inl (RuntimeError (''Falha ao inserir no Supabase: '' @ py_str (str_other silent_world) PNone))
   \<and> fst (insert_client ''Ana'' None None silent_world)
       = Inl (RuntimeError ''Falha ao inserir no Supabase: None'')"
    by (simp add: dict_get_def)
  from insert_no_data_message [OF h' i' s', of ?attrs] d'
  have 2: "fst (insert_client ''Ana'' None None refusing_world)
       = Inl (RuntimeError
               (''Falha ao inserir no Supabase: ''
                @ py_str (str_other refusing_world) (PStr ''permission denied for table clients'')))"
    by simp
  from 1 2 show ?thesis by blast
qed

section \<open>The order and the size of a listing\<close>

lemma recent_first_total: "recent_first r s \<or> recent_first s r"
  by (auto simp: recent_first_def split: option.splits)

lemma recent_first_trans: "recent_first r s \<Longrightarrow> recent_first s t \<Longrightarrow> recent_first r t"
  by (auto simp: recent_first_def split: option.splits)

lemma set_insert_desc: "set (insert_desc r xs) = insert r (set xs)"
  by (induction xs) auto

lemma length_insert_desc: "length (insert_desc r xs) = Suc (length xs)"
  by (induction xs) auto

lemma sorted_insert_desc:
  "sorted_wrt recent_first xs \<Longrightarrow> sorted_wrt recent_first (insert_desc r xs)"
proof (induction xs)
  case Nil
  then show ?case by simp
next
  case (Cons s ss)
  show ?case
  proof (cases "recent_first r s")
    case True
    with Cons.prems show ?thesis
      by (auto intro: recent_first_trans)
  next
    case False
    then have "recent_first s r" using recent_first_total by blast
    with False Cons show ?thesis
      by (auto simp: set_insert_desc)
  qed
qed

lemma set_order_by: "set (order_by_created_at_desc rows) = set rows"
  by (induction rows) (simp_all add: order_by_created_at_desc_def set_insert_desc)

lemma length_order_by: "length (order_by_created_at_desc rows) = length rows"
  by (induction rows) (simp_all add: order_by_created_at_desc_def length_insert_desc)

lemma sorted_order_by: "sorted_wrt recent_first (order_by_created_at_desc rows)"
  by (induction rows) (simp_all add: order_by_created_at_desc_def sorted_insert_desc)

lemma take_most_recent:
  assumes "sorted_wrt P xs" and "r \<in> set xs" and "r \<notin> set (take n xs)" and "s \<in> set (take n xs)"
  shows "P s r"
proof -
  have "xs = take n xs @ drop n xs" by simp
  with assms(2,3) have "r \<in> set (drop n xs)"
    by (metis Un_iff set_append)
  moreover from assms(1) have "sorted_wrt P (take n xs @ drop n xs)" by simp
  ultimately show ?thesis
    using assms(4) unfolding sorted_wrt_append by blast
qed

text \<open>What each function leaves untouched.\<close>

lemma init_pool_frame: "init_pool mn mx w = (r, w1) \<Longrightarrow> w1 = w\<lparr>g_pool := g_pool w1\<rparr>"
  by (auto simp: init_pool_def split: option.splits if_splits sum.splits)

lemma get_conn_frame: "get_conn w = (r, w1) \<Longrightarrow> w1 = w\<lparr>g_pool := g_pool w1\<rparr>"
  by (auto simp: get_conn_def dest!: init_pool_frame
           split: option.splits if_splits sum.splits prod.splits)

lemma put_conn_frame: "put_conn c w = (r, w1) \<Longrightarrow> w1 = w\<lparr>g_pool := g_pool w1\<rparr>"
  by (auto simp: put_conn_def split: option.splits sum.splits)

lemma init_supabase_frame:
  "init_supabase w = (r, w1) \<Longrightarrow> w1 = w\<lparr>g_supabase := g_supabase w1\<rparr>"
  by (auto simp: init_supabase_def split: if_splits)

lemma get_clients_default: "get_clients None w = get_clients (Some 100) w"
  by (simp add: get_clients_def)

lemma list_clients_default: "list_clients None w = list_clients (Some 100) w"
  by (simp add: list_clients_def)

lemma with_conn_Inr:
  assumes "(case get_conn w of
              (Inl e, w1) \<Rightarrow> (Inl e, w1)
            | (Inr conn, w1) \<Rightarrow> try_finally body (put_conn conn) w1) = (Inr v, w')"
  shows "\<exists>c w1 w2. get_conn w = (Inr c, w1) \<and> body w1 = (Inr v, w2)
                   \<and> put_conn c w2 = (Inr (), w')"
  using assms by (auto simp: try_finally_def split: prod.splits sum.splits)

lemma cur_execute_Inr:
  "cur_execute stmt w = (Inr r, w1) \<Longrightarrow>
   pg_up w \<and> (\<exists>db. stmt (pg w) = (Inr r, db) \<and> w1 = w\<lparr>pg := db\<rparr>)"
  by (auto simp: cur_execute_def split: if_splits prod.splits)

lemma get_clients_direct_Inr:
  assumes "\<not> hosted w" and "get_clients (Some l) w = (Inr v, w')"
  shows "\<exists>tbl. clients (pg w) = Some tbl \<and> 0 \<le> l
           \<and> v = PList (map row_dict
                   (take (nat (l)) (order_by_created_at_desc tbl)))"
proof -
  let ?body = "\<lambda>w2. case cur_execute (\<lambda>db. (sql_select_recent l db, db)) w2 of
                        (Inl e, w3) \<Rightarrow> (Inl e, w3)
                      | (Inr rows, w3) \<Rightarrow> (Inr (PList (map row_dict rows)), w3)"
  from assms have "(case get_conn w of
              (Inl e, w1) \<Rightarrow> (Inl e, w1)
            | (Inr conn, w1) \<Rightarrow> try_finally ?body (put_conn conn) w1) = (Inr v, w')"
    by (simp add: get_clients_def)
  from with_conn_Inr [OF this] obtain c w1 w2 where
    g: "get_conn w = (Inr c, w1)" and b: "?body w1 = (Inr v, w2)"
    by blast
  have f: "pg w1 = pg w"
    by (subst get_conn_frame [OF g]) simp
  from b obtain rows w3 where
    e: "cur_execute (\<lambda>db. (sql_select_recent l db, db)) w1 = (Inr rows, w3)"
    and v: "v = PList (map row_dict rows)"
    by (auto split: prod.splits sum.splits)
  from cur_execute_Inr [OF e] f have "sql_select_recent l (pg w) = Inr rows"
    by auto
  then show ?thesis
    using v by (auto simp: sql_select_recent_def split: option.splits if_splits)
qed


lemma get_clients_hosted_wrap:
  "get_clients_hosted so (wrap sh (PList xs)) = Inr v \<Longrightarrow> v = PList xs"
  by (cases sh; cases xs)
     (auto simp: get_clients_hosted_def wrap_def attr_or_get_def dict_get_def Let_def
           split: if_splits)

lemma hosted_call_Inr:
  assumes "(case init_supabase w of
              (Inl e, w1) \<Rightarrow> (Inl e, w1)
            | (Inr sb, w1) \<Rightarrow>
                (case service w1 req (remote w1) of
                   (Inl e, db) \<Rightarrow> (Inl e, w1\<lparr>remote := db\<rparr>)
                 | (Inr res, db) \<Rightarrow> (unwrap (str_other w1) res, w1\<lparr>remote := db\<rparr>)))
           = (Inr v, w')"
  shows "\<exists>res db g. service w req (remote w) = (Inr res, db) \<and> unwrap (str_other w) res = Inr v
                    \<and> w' = w\<lparr>g_supabase := g, remote := db\<rparr>"
proof -
  obtain r w1 where i: "init_supabase w = (r, w1)" by (cases "init_supabase w")
  from init_supabase_frame [OF i] have w1: "w1 = w\<lparr>g_supabase := g_supabase w1\<rparr>" .
  have f: "service w1 = service w" "remote w1 = remote w" "str_other w1 = str_other w"
    by (subst w1, simp)+
  from assms i f obtain res db where
    "service w req (remote w) = (Inr res, db)" "unwrap (str_other w) res = Inr v"
    "w' = w1\<lparr>remote := db\<rparr>"
    by (auto split: sum.splits prod.splits)
  with w1 show ?thesis by metis
qed

lemma get_clients_hosted_Inr:
  assumes "hosted w" and "service w = postgrest sh" and "get_clients (Some l) w = (Inr v, w')"
  shows "\<exists>tbl. clients (remote w) = Some tbl \<and> 0 \<le> l
           \<and> v = PList (map row_dict (take (nat l) (order_by_created_at_desc tbl)))"
proof -
  from assms(1,3) have "(case init_supabase w of
              (Inl e, w1) \<Rightarrow> (Inl e, w1)
            | (Inr sb, w1) \<Rightarrow>
                (case service w1 (SelectAllByCreatedDesc l) (remote w1) of
                   (Inl e, db) \<Rightarrow> (Inl e, w1\<lparr>remote := db\<rparr>)
                 | (Inr res, db) \<Rightarrow> (get_clients_hosted (str_other w1) res, w1\<lparr>remote := db\<rparr>)))
           = (Inr v, w')"
    by (simp add: get_clients_def)
  from hosted_call_Inr [OF this] assms(2) obtain res db where
    s: "postgrest sh (SelectAllByCreatedDesc l) (remote w) = (Inr res, db)"
    and u: "get_clients_hosted (str_other w) res = Inr v"
    by auto
  from s obtain rows where r: "sql_select_recent l (remote w) = Inr rows"
    and res: "res = wrap sh (PList (map row_dict rows))"
    by (auto split: sum.splits)
  from u res have "v = PList (map row_dict rows)"
    by (simp add: get_clients_hosted_wrap)
  with r show ?thesis
    by (auto simp: sql_select_recent_def split: option.splits if_splits)
qed

lemma get_clients_Inr:
  assumes "hosted w \<longrightarrow> service w = postgrest sh" and "get_clients (Some l) w = (Inr v, w')"
  shows "\<exists>tbl. clients (backend w) = Some tbl \<and> 0 \<le> l
           \<and> v = PList (map row_dict (take (nat l) (order_by_created_at_desc tbl)))"
proof (cases "hosted w")
  case True
  with assms get_clients_hosted_Inr [of w sh l v w'] show ?thesis
    by (simp add: backend_def)
next
  case False
  with assms get_clients_direct_Inr [of w l v w'] show ?thesis
    by (simp add: backend_def)
qed

lemma get_clients_direct_succeeds:
  assumes "\<not> hosted w" and "get_conn w = (Inr c, w1)" and "pg_up w"
    and "clients (pg w) = Some tbl" and "0 \<le> l"
  shows "fst (get_clients (Some l) w)
           = Inr (PList (map row_dict (take (nat l) (order_by_created_at_desc tbl))))"
proof -
  from get_conn_frame [OF assms(2)] have w1: "w1 = w\<lparr>g_pool := g_pool w1\<rparr>" .
  have f: "pg w1 = pg w" "pg_up w1 = pg_up w"
    by (subst w1, simp)+
  from get_conn_Inr [OF assms(2)] obtain p where
    p: "g_pool w1 = Some p" "c \<in> set (used p)" by auto
  have "g_pool (w1\<lparr>pg := pg w\<rparr>) = Some p" using p by simp
  from put_conn_used [OF this p(2)] obtain w' where
    "put_conn c (w1\<lparr>pg := pg w\<rparr>) = (Inr (), w')" by auto
  with assms f show ?thesis
    by (simp add: get_clients_def try_finally_def cur_execute_def sql_select_recent_def)
qed

text \<open>
  C4. An omitted limit is 100, in \<open>get_clients\<close> and in the handler \<open>list_clients\<close>.
  Whenever \<open>get_clients\<close> returns (in direct-pool mode; in hosted mode with a table service
  that behaves as \<open>postgrest\<close>), it returns the first \<open>limit\<close> rows of the table sorted by
  \<open>created_at\<close> descending: the list is sorted, has at most \<open>limit\<close> items, holds rows of
  the table only, and no row left out is more recent than a row returned. In direct-pool
  mode it does return when a connection can be had, the server is up, the table exists
  and the limit is not negative.
\<close>

theorem listing_recent_first_capped:
  "get_clients None w = get_clients (Some 100) w
   \<and> list_clients None w = list_clients (Some 100) w
   \<and> ((hosted w \<longrightarrow> service w = postgrest sh) \<and> get_clients (Some l) w = (Inr v, w') \<longrightarrow>
        (\<exists>tbl rows.
           clients (backend w) = Some tbl
         \<and> v = PList (map row_dict rows)
         \<and> rows = take (nat l) (order_by_created_at_desc tbl)
         \<and> sorted_wrt recent_first rows
         \<and> int (length rows) \<le> l
         \<and> set rows \<subseteq> set tbl
         \<and> (\<forall>r\<in>set tbl. r \<notin> set rows \<longrightarrow> (\<forall>s\<in>set rows. recent_first s r))))
   \<and> (\<not> hosted w \<and> fst (get_conn w) = Inr c \<and> pg_up w \<and> clients (pg w) = Some t \<and> 0 \<le> l \<longrightarrow>
        fst (get_clients (Some l) w)
          = Inr (PList (map row_dict (take (nat l) (order_by_created_at_desc t)))))"
proof (intro conjI impI)
  show "get_clients None w = get_clients (Some 100) w" by (rule get_clients_default)
  show "list_clients None w = list_clients (Some 100) w" by (rule list_clients_default)
next
  assume a: "(hosted w \<longrightarrow> service w = postgrest sh) \<and> get_clients (Some l) w = (Inr v, w')"
  then obtain tbl where tbl: "clients (backend w) = Some tbl" and l: "0 \<le> l"
    and v: "v = PList (map row_dict (take (nat l) (order_by_created_at_desc tbl)))"
    using get_clients_Inr [of w sh l v w'] by blast
  let ?xs = "order_by_created_at_desc tbl"
  let ?rows = "take (nat l) ?xs"
  have s: "sorted_wrt recent_first ?rows"
    using sorted_order_by [of tbl] by (rule sorted_wrt_take)
  have n: "int (length ?rows) \<le> l" using l by simp
  have sub: "set ?rows \<subseteq> set tbl"
    using set_take_subset [of "nat l" ?xs] by (simp add: set_order_by)
  have m: "\<forall>r\<in>set tbl. r \<notin> set ?rows \<longrightarrow> (\<forall>s\<in>set ?rows. recent_first s r)"
    using take_most_recent [OF sorted_order_by, of _ tbl "nat l"] by (simp add: set_order_by)
  show "\<exists>tbl rows.
           clients (backend w) = Some tbl
         \<and> v = PList (map row_dict rows)
         \<and> rows = take (nat l) (order_by_created_at_desc tbl)
         \<and> sorted_wrt recent_first rows
         \<and> int (length rows) \<le> l
         \<and> set rows \<subseteq> set tbl
         \<and> (\<forall>r\<in>set tbl. r \<notin> set rows \<longrightarrow> (\<forall>s\<in>set rows. recent_first s r))"
    using tbl v s n sub m by blast
next
  assume a: "\<not> hosted w \<and> fst (get_conn w) = Inr c \<and> pg_up w \<and> clients (pg w) = Some t \<and> 0 \<le> l"
  then have "get_conn w = (Inr c, snd (get_conn w))"
    by (cases "get_conn w") simp
  with a show "fst (get_clients (Some l) w)
          = Inr (PList (map row_dict (take (nat l) (order_by_created_at_desc t))))"
    using get_clients_direct_succeeds by blast
qed

theorem listing_recent_first_capped_witness:
  "fst (get_clients (Some 2) three_world)
     = Inr (PList [row_dict (three_clients ! 2), row_dict (three_clients ! 1)])
   \<and> fst (get_clients (Some 2) three_hosted_world)
     = Inr (PList [row_dict (three_clients ! 2), row_dict (three_clients ! 1)])
   \<and> (\<exists>tbl rows.
           clients (backend three_world) = Some tbl
         \<and> PList [row_dict (three_clients ! 2), row_dict (three_clients ! 1)]
             = PList (map row_dict rows)
         \<and> rows = take (nat 2) (order_by_created_at_desc tbl)
         \<and> sorted_wrt recent_first rows
         \<and> int (length rows) \<le> 2
         \<and> set rows \<subseteq> set tbl
         \<and> (\<forall>r\<in>set tbl. r \<notin> set rows \<longrightarrow> (\<forall>s\<in>set rows. recent_first s r)))
   \<and> (\<exists>tbl rows.
           clients (backend three_hosted_world) = Some tbl
         \<and> PList [row_dict (three_clients ! 2), row_dict (three_clients ! 1)]
             = PList (map row_dict rows)
         \<and> rows = take (nat 2) (order_by_created_at_desc tbl)
         \<and> sorted_wrt recent_first rows
         \<and> int (length rows) \<le> 2
         \<and> set rows \<subseteq> set tbl
         \<and> (\<forall>r\<in>set tbl. r \<notin> set rows \<longrightarrow> (\<forall>s\<in>set rows. recent_first s r)))
   \<and> fst (get_clients (Some 0) three_world)
       = Inr (PList (map row_dict (take (nat 0) (order_by_created_at_desc three_clients))))"
proof -
  have a: "fst (get_clients (Some 2) three_world)
     = Inr (PList [row_dict (three_clients ! 2), row_dict (three_clients ! 1)])"
    by code_simp
  then have g: "get_clients (Some 2) three_world
     = (Inr (PList [row_dict (three_clients ! 2), row_dict (three_clients ! 1)]),
        snd (get_clients (Some 2) three_world))"
    by (cases "get_clients (Some 2) three_world") simp
  have h: "\<not> hosted three_world" by code_simp
  have a': "fst (get_clients (Some 2) three_hosted_world)
     = Inr (PList [row_dict (three_clients ! 2), row_dict (three_clients ! 1)])"
    by code_simp
  then have g': "get_clients (Some 2) three_hosted_world
     = (Inr (PList [row_dict (three_clients ! 2), row_dict (three_clients ! 1)]),
        snd (get_clients (Some 2) three_hosted_world))"
    by (cases "get_clients (Some 2) three_hosted_world") simp
  have h': "service three_hosted_world = postgrest AsObject"
    by (simp add: three_hosted_world_def hosted_world_def)
  have c: "fst (get_conn three_world) = Inr 0 \<and> pg_up three_world
           \<and> clients (pg three_world) = Some three_clients"
    by code_simp
  from listing_recent_first_capped [of three_world AsObject 2] g h a
  have 1: "\<exists>tbl rows.
           clients (backend three_world) = Some tbl
         \<and> PList [row_dict (three_clients ! 2), row_dict (three_clients ! 1)]
             = PList (map row_dict rows)
         \<and> rows = take (nat 2) (order_by_created_at_desc tbl)
         \<and> sorted_wrt recent_first rows
         \<and> int (length rows) \<le> 2
         \<and> set rows \<subseteq> set tbl
         \<and> (\<forall>r\<in>set tbl. r \<notin> set rows \<longrightarrow> (\<forall>s\<in>set rows. recent_first s r))"
    by blast
  from listing_recent_first_capped [of three_hosted_world AsObject 2] g' h'
  have 2: "\<exists>tbl rows.
           clients (backend three_hosted_world) = Some tbl
         \<and> PList [row_dict (three_clients ! 2), row_dict (three_clients ! 1)]
             = PList (map row_dict rows)
         \<and> rows = take (nat 2) (order_by_created_at_desc tbl)
         \<and> sorted_wrt recent_first rows
         \<and> int (length rows) \<le> 2
         \<and> set rows \<subseteq> set tbl
         \<and> (\<forall>r\<in>set tbl. r \<notin> set rows \<longrightarrow> (\<forall>s\<in>set rows. recent_first s r))"
    by blast
  from listing_recent_first_capped [of three_world _ 0 _ _ 0 three_clients] h c
  have 3: "fst (get_clients (Some 0) three_world)
       = Inr (PList (map row_dict (take (nat 0) (order_by_created_at_desc three_clients))))"
    by simp
  from a a' 1 2 3 show ?thesis by blast
qed

section \<open>Reading back what was created\<close>

lemma sql_insert_Inr:
  assumes "sql_insert name address phone db = (Inr r, db1)"
  shows "\<exists>tbl. clients db = Some tbl
           \<and> r = \<lparr>r_id = clients_id_seq db, r_name = name, r_address = address,
                  r_phone = phone, r_created_at = Some (now db)\<rparr>
           \<and> r_id r \<notin> r_id ` set tbl
           \<and> clients db1 = Some (tbl @ [r])"
  using assms
  by (auto simp: sql_insert_def Let_def split: option.splits if_splits)

lemma insert_client_hosted_wrap:
  "insert_client_hosted so (wrap sh (PList [row_dict r]))
     = Inr [(''id'', PInt (r_id r)), (''created_at'', opt_time (r_created_at r))]"
  by (cases sh)
     (simp_all add: insert_client_hosted_def wrap_def attr_or_get_def dict_get_def row_dict_def)

lemma insert_client_direct_Inr:
  assumes "\<not> hosted w" and "insert_client name address phone w = (Inr ins, w1)"
  shows "\<exists>r db1 g. sql_insert name address phone (pg w) = (Inr r, db1)
           \<and> ins = [(''id'', PInt (r_id r)), (''created_at'', opt_time (r_created_at r))]
           \<and> w1 = w\<lparr>pg := db1, g_pool := g\<rparr>"
proof -
  let ?body = "\<lambda>w2. case cur_execute (sql_insert name address phone) w2 of
                        (Inl e, w3) \<Rightarrow> (Inl e, w3)
                      | (Inr r, w3) \<Rightarrow>
                          (Inr [(''id'', PInt (r_id r)), (''created_at'', opt_time (r_created_at r))],
                           w3)"
  from assms have "(case get_conn w of
              (Inl e, wa) \<Rightarrow> (Inl e, wa)
            | (Inr conn, wa) \<Rightarrow> try_finally ?body (put_conn conn) wa) = (Inr ins, w1)"
    by (simp add: insert_client_def)
  from with_conn_Inr [OF this] obtain c wa wb where
    g: "get_conn w = (Inr c, wa)" and b: "?body wa = (Inr ins, wb)"
    and p: "put_conn c wb = (Inr (), w1)"
    by blast
  have f: "pg wa = pg w"
    by (subst get_conn_frame [OF g]) simp
  from b obtain r where
    e: "cur_execute (sql_insert name address phone) wa = (Inr r, wb)"
    and ins: "ins = [(''id'', PInt (r_id r)), (''created_at'', opt_time (r_created_at r))]"
    by (auto split: prod.splits sum.splits)
  from cur_execute_Inr [OF e] f obtain db1 where
    s: "sql_insert name address phone (pg w) = (Inr r, db1)" and wb: "wb = wa\<lparr>pg := db1\<rparr>"
    by auto
  have "w1 = w\<lparr>pg := db1, g_pool := g_pool w1\<rparr>"
    by (subst put_conn_frame [OF p], subst wb, subst get_conn_frame [OF g]) simp
  with s ins show ?thesis by blast
qed

lemma insert_client_hosted_Inr:
  assumes "hosted w" and "service w = postgrest sh"
    and "insert_client name address phone w = (Inr ins, w1)"
  shows "\<exists>r db1 g. sql_insert name address phone (remote w) = (Inr r, db1)
           \<and> ins = [(''id'', PInt (r_id r)), (''created_at'', opt_time (r_created_at r))]
           \<and> w1 = w\<lparr>g_supabase := g, remote := db1\<rparr>"
proof -
  from assms(1,3) have "(case init_supabase w of
              (Inl e, wa) \<Rightarrow> (Inl e, wa)
            | (Inr sb, wa) \<Rightarrow>
                (case service wa (InsertClient name address phone) (remote wa) of
                   (Inl e, db) \<Rightarrow> (Inl e, wa\<lparr>remote := db\<rparr>)
                 | (Inr res, db) \<Rightarrow> (insert_client_hosted (str_other wa) res, wa\<lparr>remote := db\<rparr>)))
           = (Inr ins, w1)"
    by (simp add: insert_client_def)
  from hosted_call_Inr [OF this] assms(2) obtain res db g where
    s: "postgrest sh (InsertClient name address phone) (remote w) = (Inr res, db)"
    and u: "insert_client_hosted (str_other w) res = Inr ins"
    and w1: "w1 = w\<lparr>g_supabase := g, remote := db\<rparr>"
    by auto
  from s obtain r where r: "sql_insert name address phone (remote w) = (Inr r, db)"
    and res: "res = wrap sh (PList [row_dict r])"
    by (auto split: sum.splits prod.splits)
  from u res have "ins = [(''id'', PInt (r_id r)), (''created_at'', opt_time (r_created_at r))]"
    by (simp add: insert_client_hosted_wrap)
  with r w1 show ?thesis by blast
qed

lemma insert_client_Inr:
  assumes "hosted w \<longrightarrow> service w = postgrest sh"
    and "insert_client name address phone w = (Inr ins, w1)"
  shows "\<exists>r db1. sql_insert name address phone (backend w) = (Inr r, db1)
           \<and> ins = [(''id'', PInt (r_id r)), (''created_at'', opt_time (r_created_at r))]
           \<and> backend w1 = db1 \<and> hosted w1 = hosted w \<and> service w1 = service w"
proof (cases "hosted w")
  case True
  with assms insert_client_hosted_Inr [of w sh name address phone ins w1]
  show ?thesis
    by (auto simp: backend_def hosted_def)
next
  case False
  with assms insert_client_direct_Inr [of w name address phone ins w1]
  show ?thesis
    by (auto simp: backend_def hosted_def)
qed

lemma py_get_row_dict:
  "py_get (row_dict r) ''id'' = Inr (PInt (r_id r))"
  "py_get (row_dict r) ''name'' = Inr (PStr (r_name r))"
  "py_get (row_dict r) ''address'' = Inr (opt_str (r_address r))"
  "py_get (row_dict r) ''phone'' = Inr (opt_str (r_phone r))"
  by (simp_all add: row_dict_def dict_get_def)

text \<open>
  C9. After a successful \<open>insert_client\<close>, a listing that succeeds shows the values as
  they were supplied: every listed record that carries the new id has the name, address
  and phone given to \<open>insert_client\<close>, an omitted address or phone being \<^verbatim>\<open>None\<close>; and the
  new record is in the listing whenever the limit is not smaller than the table. (In
  hosted mode for a table service that behaves as \<open>postgrest\<close>.)
\<close>

theorem created_client_read_back:
  assumes "hosted w \<longrightarrow> service w = postgrest sh"
    and "insert_client name address phone w = (Inr inserted, w1)"
    and "get_clients (Some l) w1 = (Inr listed, w2)"
  shows "\<exists>i recs tbl.
           dict_item inserted ''id'' = Inr (PInt i)
         \<and> listed = PList recs
         \<and> clients (backend w1) = Some tbl
         \<and> (\<forall>rec\<in>set recs.
               py_get rec ''id'' = Inr (PInt i) \<longrightarrow>
                 py_get rec ''name'' = Inr (PStr name)
               \<and> py_get rec ''address'' = Inr (opt_str address)
               \<and> py_get rec ''phone'' = Inr (opt_str phone))
         \<and> (int (length tbl) \<le> l \<longrightarrow> (\<exists>rec\<in>set recs. py_get rec ''id'' = Inr (PInt i)))"
proof -
  from insert_client_Inr [OF assms(1,2)] obtain r db1 where
    s: "sql_insert name address phone (backend w) = (Inr r, db1)"
    and ins: "inserted = [(''id'', PInt (r_id r)), (''created_at'', opt_time (r_created_at r))]"
    and b: "backend w1 = db1" and h: "hosted w1 = hosted w" "service w1 = service w"
    by blast
  from sql_insert_Inr [OF s] obtain tbl where
    r: "r = \<lparr>r_id = clients_id_seq (backend w), r_name = name, r_address = address,
              r_phone = phone, r_created_at = Some (now (backend w))\<rparr>"
    and fresh: "r_id r \<notin> r_id ` set tbl"
    and t1: "clients db1 = Some (tbl @ [r])"
    by blast
  from assms(1) h have "hosted w1 \<longrightarrow> service w1 = postgrest sh" by simp
  from get_clients_Inr [OF this assms(3)] b t1
  have listed: "listed = PList (map row_dict (take (nat l) (order_by_created_at_desc (tbl @ [r]))))"
    and l: "0 \<le> l"
    by auto
  let ?rows = "take (nat l) (order_by_created_at_desc (tbl @ [r]))"
  have sub: "set ?rows \<subseteq> set (tbl @ [r])"
    using set_take_subset [of "nat l" "order_by_created_at_desc (tbl @ [r])"]
    by (simp only: set_order_by)
  have same: "r' = r" if "r' \<in> set ?rows" "r_id r' = r_id r" for r'
  proof -
    from that(1) sub have "r' \<in> set tbl \<or> r' = r" by auto
    moreover have "r' \<notin> set tbl" using fresh that(2) by (metis image_eqI)
    ultimately show ?thesis by blast
  qed
  have rb: "\<forall>rec\<in>set (map row_dict ?rows).
               py_get rec ''id'' = Inr (PInt (r_id r)) \<longrightarrow>
                 py_get rec ''name'' = Inr (PStr name)
               \<and> py_get rec ''address'' = Inr (opt_str address)
               \<and> py_get rec ''phone'' = Inr (opt_str phone)"
  proof (intro ballI impI)
    fix rec
    assume "rec \<in> set (map row_dict ?rows)" and i: "py_get rec ''id'' = Inr (PInt (r_id r))"
    then obtain r' where r': "r' \<in> set ?rows" "rec = row_dict r'" by auto
    with i have "r_id r' = r_id r" by (simp add: py_get_row_dict)
    with same [of r'] r' have "rec = row_dict r" by blast
    then show "py_get rec ''name'' = Inr (PStr name)
               \<and> py_get rec ''address'' = Inr (opt_str address)
               \<and> py_get rec ''phone'' = Inr (opt_str phone)"
      by (simp add: py_get_row_dict r)
  qed
  have there: "\<exists>rec\<in>set (map row_dict ?rows). py_get rec ''id'' = Inr (PInt (r_id r))"
    if "int (length (tbl @ [r])) \<le> l"
  proof -
    from that have "?rows = order_by_created_at_desc (tbl @ [r])"
      by (simp add: length_order_by)
    then have "r \<in> set ?rows" by (simp add: set_order_by)
    then show ?thesis
      using py_get_row_dict(1) [of r] by (metis image_eqI set_map)
  qed
  show ?thesis
    using ins listed b t1 rb there
    by (intro exI [of _ "r_id r"] exI [of _ "map row_dict ?rows"] exI [of _ "tbl @ [r]"])
       (simp add: dict_item_def)
qed

theorem created_client_read_back_witness:
  "fst (insert_client ''Ana Lima'' (Some ''Rua A, 10'') None direct_world)
     = Inr [(''id'', PInt 1), (''created_at'', PTime 1000)]
   \<and> fst (get_clients (Some 100)
            (snd (insert_client ''Ana Lima'' (Some ''Rua A, 10'') None direct_world)))
     = Inr (PList [PDict [(''id'', PInt 1), (''name'', PStr ''Ana Lima''),
                          (''address'', PStr ''Rua A, 10''), (''phone'', PNone),
                          (''created_at'', PTime 1000)]])
   \<and> (\<exists>i recs tbl.
         dict_item [(''id'', PInt 1), (''created_at'', PTime 1000)] ''id'' = Inr (PInt i)
       \<and> PList [PDict [(''id'', PInt 1), (''name'', PStr ''Ana Lima''),
                        (''address'', PStr ''Rua A, 10''), (''phone'', PNone),
                        (''created_at'', PTime 1000)]] = PList recs
       \<and> clients (backend (snd (insert_client ''Ana Lima'' (Some ''Rua A, 10'') None
                                  direct_world))) = Some tbl
       \<and> (\<forall>rec\<in>set recs.
             py_get rec ''id'' = Inr (PInt i) \<longrightarrow>
               py_get rec ''name'' = Inr (PStr ''Ana Lima'')
             \<and> py_get rec ''address'' = Inr (opt_str (Some ''Rua A, 10''))
             \<and> py_get rec ''phone'' = Inr (opt_str None))
       \<and> (int (length tbl) \<le> 100 \<longrightarrow> (\<exists>rec\<in>set recs. py_get rec ''id'' = Inr (PInt i))))"
proof -
  let ?w1 = "snd (insert_client ''Ana Lima'' (Some ''Rua A, 10'') None direct_world)"
  have a: "fst (insert_client ''Ana Lima'' (Some ''Rua A, 10'') None direct_world)
     = Inr [(''id'', PInt 1), (''created_at'', PTime 1000)]"
    by code_simp
  then have i: "insert_client ''Ana Lima'' (Some ''Rua A, 10'') None direct_world
     = (Inr [(''id'', PInt 1), (''created_at'', PTime 1000)], ?w1)"
    by (cases "insert_client ''Ana Lima'' (Some ''Rua A, 10'') None direct_world") simp
  have b: "fst (get_clients (Some 100) ?w1)
     = Inr (PList [PDict [(''id'', PInt 1), (''name'', PStr ''Ana Lima''),
                          (''address'', PStr ''Rua A, 10''), (''phone'', PNone),
                          (''created_at'', PTime 1000)]])"
    by code_simp
  then have g: "get_clients (Some 100) ?w1
     = (Inr (PList [PDict [(''id'', PInt 1), (''name'', PStr ''Ana Lima''),
                          (''address'', PStr ''Rua A, 10''), (''phone'', PNone),
                          (''created_at'', PTime 1000)]]),
        snd (get_clients (Some 100) ?w1))"
    by (cases "get_clients (Some 100) ?w1") simp
  have h: "hosted direct_world \<longrightarrow> service direct_world = postgrest AsObject"
    by (simp add: direct_world_def)
  from created_client_read_back [OF h i g] a b show ?thesis
    by blast
qed

end
